theory Spec2Isabelle
  imports Complex_Main "HOL-Library.Multiset" "HOL-Library.Product_Lexorder"
begin

section \<open>ColorScan: the analysis pipeline of \<open>AnalysisWindow\<close>\<close>

text \<open>
  A shallow embedding of the algorithmic core of \<open>src/ColorScan.py\<close>: contour
  extraction (\<open>cvContour\<close>), similarity matching with manual overrides
  (\<open>getSimilarContours\<close>, \<open>appendContour\<close>, \<open>selectContour\<close>), centroid
  computation (\<open>findCenters\<close>), morphology (\<open>cvDilateErode\<close>), sampling
  (\<open>getAvColor\<close>, \<open>analyzeContours\<close>) and the CSV writer (\<open>saveColors\<close>).

  The attributes of \<open>self\<close> that these methods read and write are the fields of one
  record. Python exceptions are values of \<open>py_error\<close>; a method that can raise returns
  \<open>py_error + 'a\<close>. NumPy's float64 numbers are modelled as exact reals. Widget state,
  drawing and file output are outside the embedding.

  NumPy and OpenCV routines are library code, not code of the repository. The simple ones
  are written out as their documentation defines them (\<open>np.clip\<close>, \<open>np.round\<close>,
  \<open>np.isclose\<close>, \<open>np.union1d\<close>, \<open>np.setdiff1d\<close>, \<open>np.argsort\<close>, \<open>np.lexsort\<close>,
  masked mean and standard deviation, \<open>cv2.contourArea\<close>, \<open>cv2.moments\<close>,
  \<open>cv2.boundingRect\<close>); the others (\<open>cv2.findContours\<close>, the moment invariants
  behind \<open>cv2.matchShapes\<close>, \<open>cv2.drawContours\<close>, \<open>cv2.dilate\<close>, \<open>cv2.erode\<close>)
  are parameters of the functions that call them.
\<close>

subsection \<open>Errors and Python indexing\<close>

datatype py_error = IndexError | ZeroDivisionError | UnboundLocalError | ValueError

text \<open>Indexing a list or an array with an integer: negative indices count from the end.\<close>

definition py_index :: "nat \<Rightarrow> int \<Rightarrow> nat option" where
  "py_index n i =
     (if 0 \<le> i \<and> i < int n then Some (nat i)
      else if - int n \<le> i \<and> i < 0 then Some (nat (int n + i))
      else None)"

definition py_get :: "'a list \<Rightarrow> int \<Rightarrow> py_error + 'a" where
  "py_get xs i = (case py_index (length xs) i of None \<Rightarrow> Inl IndexError | Some j \<Rightarrow> Inr (xs ! j))"

text \<open>Fancy indexing \<open>a[idx]\<close> with an integer index array.\<close>

fun py_take :: "'a list \<Rightarrow> int list \<Rightarrow> py_error + 'a list" where
  "py_take xs [] = Inr []"
| "py_take xs (i # is) =
     (case py_get xs i of
        Inl e \<Rightarrow> Inl e
      | Inr v \<Rightarrow> (case py_take xs is of Inl e \<Rightarrow> Inl e | Inr vs \<Rightarrow> Inr (v # vs)))"

subsection \<open>Contours, areas and moments\<close>

type_synonym point = "int \<times> int"
type_synonym contour = "point list"
type_synonym mask = "nat list list"
type_synonym pixel = "nat \<times> nat \<times> nat"
type_synonym image = "pixel list list"

text \<open>
  \<open>cv2.contourArea\<close> and \<open>cv2.moments\<close> of a point contour are computed by Green's
  formula: with \<open>prev\<close> running one point behind \<open>p\<close> (starting at the last point),
  \<open>dxy = prev.x * p.y - p.x * prev.y\<close> is accumulated into \<open>a00\<close>,
  \<open>dxy * (prev.x + p.x)\<close> into \<open>a10\<close> and \<open>dxy * (prev.y + p.y)\<close> into \<open>a01\<close>.
\<close>

definition dxy :: "point \<Rightarrow> point \<Rightarrow> int" where
  "dxy prev p = fst prev * snd p - fst p * snd prev"

fun green_a00 :: "point \<Rightarrow> contour \<Rightarrow> int" where
  "green_a00 prev [] = 0"
| "green_a00 prev (p # ps) = dxy prev p + green_a00 p ps"

fun green_a10 :: "point \<Rightarrow> contour \<Rightarrow> int" where
  "green_a10 prev [] = 0"
| "green_a10 prev (p # ps) = dxy prev p * (fst prev + fst p) + green_a10 p ps"

fun green_a01 :: "point \<Rightarrow> contour \<Rightarrow> int" where
  "green_a01 prev [] = 0"
| "green_a01 prev (p # ps) = dxy prev p * (snd prev + snd p) + green_a01 p ps"

definition contourArea :: "contour \<Rightarrow> real" where
  "contourArea c = (if c = [] then 0 else \<bar>real_of_int (green_a00 (last c) c) * (1 / 2)\<bar>)"

record moments =
  m00 :: real
  m10 :: real
  m01 :: real

text \<open>
  All moments are zero when \<open>a00\<close> vanishes; otherwise the sign of \<open>a00\<close> (the
  orientation of the contour) is divided out.
\<close>

definition cv_moments :: "contour \<Rightarrow> moments" where
  "cv_moments c =
     (if c = [] then \<lparr>m00 = 0, m10 = 0, m01 = 0\<rparr>
      else let a00 = green_a00 (last c) c; a10 = green_a10 (last c) c;
               a01 = green_a01 (last c) c
           in if a00 = 0 then \<lparr>m00 = 0, m10 = 0, m01 = 0\<rparr>
              else if a00 > 0
                then \<lparr>m00 = real_of_int a00 * (1 / 2), m10 = real_of_int a10 * (1 / 6),
                      m01 = real_of_int a01 * (1 / 6)\<rparr>
                else \<lparr>m00 = real_of_int a00 * (- 1 / 2), m10 = real_of_int a10 * (- 1 / 6),
                      m01 = real_of_int a01 * (- 1 / 6)\<rparr>)"

subsection \<open>The state of \<open>AnalysisWindow\<close>\<close>

record analysis_window =
  contours :: "contour list"
  sizes :: "real list"
  selectedCont :: int
  inContour :: int
  closeInds :: "int list"
  closeIndsPlus :: "int list"
  addConts :: "int list"
  removeConts :: "int list"
  V_sizeTol :: real
  V_shapeTol :: real
  centers :: "(int \<times> int) list"
  closeSizes :: "real list"
  indDict :: "int \<rightharpoonup> nat"
  refinedMasks :: "mask list"
  refinedCenters :: "(int \<times> int) list"
  refiner_data :: "int list"
  im :: image
  imHSV :: image
  imLAB :: image
  totalMask :: mask
  analyzed :: mask
  V_dilerocode :: string
  dilateCounter :: int
  erodeCounter :: int
  V_saveRGB :: bool
  V_saveHSV :: bool
  V_saveLAB :: bool
  avcolorsRGB :: "real option list list"
  avcolorsHSV :: "real option list list"
  avcolorsLAB :: "real option list list"
  stdsRGB :: "real option list list"
  stdsHSV :: "real option list list"
  stdsLAB :: "real option list list"
  maskAreas :: "real list"

text \<open>
  \<open>refiner_data\<close> holds the last entry of the source's \<open>refiner_data\<close>, the size
  arguments of the zone shape (\<open>[radius]\<close> or \<open>[width, height]\<close>), the only part the
  sampler reads. The colour arrays hold one row of three entries per zone; an entry is
  \<open>None\<close> where NumPy's result is masked (no pixel contributed) and no number is defined.
\<close>

subsection \<open>\<open>cvContour\<close>\<close>

text \<open>
  \<open>np.argsort\<close>: the indices that sort the array. NumPy's default sort does not promise
  an order among equal keys; the stable order is taken here.
\<close>

definition argsort :: "real list \<Rightarrow> nat list" where
  "argsort xs = sort_key (\<lambda>i. xs ! i) [0..<length xs]"

text \<open>
  \<open>res\<close> is the contour list returned by \<open>cv2.findContours\<close> on the mask, which is
  taken to be single-channel (for any other mask the source only prints a message). The
  areas are computed, the indices sorted by area, the indices whose area is not above 5
  dropped, and both arrays reindexed. The reference selection and the refined masks are
  reset.
\<close>

definition cvContour :: "contour list \<Rightarrow> analysis_window \<Rightarrow> analysis_window" where
  "cvContour res st =
     (let sizes0 = map contourArea res;
          bysize0 = argsort sizes0;
          bysize = filter (\<lambda>i. sizes0 ! i > 5) bysize0
      in st\<lparr>refinedMasks := [],
            selectedCont := - 1,
            contours := map (\<lambda>i. res ! i) bysize,
            sizes := map (\<lambda>i. sizes0 ! i) bysize\<rparr>)"

subsection \<open>NumPy helpers of the matcher\<close>

definition np_clip :: "real \<Rightarrow> real \<Rightarrow> real \<Rightarrow> real" where
  "np_clip x lo hi = min (max x lo) hi"

text \<open>\<open>np.round\<close> rounds to the given number of decimals, halves to the even neighbour.\<close>

definition round_half_even :: "real \<Rightarrow> int" where
  "round_half_even x =
     (let f = \<lfloor>x\<rfloor>; r = x - of_int f
      in if r < 1 / 2 then f else if 1 / 2 < r then f + 1 else if even f then f else f + 1)"

definition np_round :: "real \<Rightarrow> nat \<Rightarrow> real" where
  "np_round x k = of_int (round_half_even (x * 10 ^ k)) / 10 ^ k"

text \<open>
  \<open>np.isclose(a, b, rtol, atol)\<close> is \<open>|a - b| \<le> atol + rtol * |b|\<close>; the source
  passes \<open>rtol\<close> only, so \<open>atol\<close> has NumPy's default \<open>1e-8\<close>.
\<close>

definition np_isclose :: "real \<Rightarrow> real \<Rightarrow> real \<Rightarrow> real \<Rightarrow> bool" where
  "np_isclose a b rtol atol = (\<bar>a - b\<bar> \<le> atol + rtol * \<bar>b\<bar>)"

definition default_atol :: real where
  "default_atol = 1 / 10 ^ 8"

text \<open>\<open>np.union1d\<close> and \<open>np.setdiff1d\<close> return sorted arrays without duplicates.\<close>

definition np_union1d :: "int list \<Rightarrow> int list \<Rightarrow> int list" where
  "np_union1d a b = sort (remdups (a @ b))"

definition np_setdiff1d :: "int list \<Rightarrow> int list \<Rightarrow> int list" where
  "np_setdiff1d a b = filter (\<lambda>x. x \<notin> set b) (sort (remdups a))"

text \<open>Python's \<open>int()\<close> of a float truncates toward zero.\<close>

definition py_int :: "real \<Rightarrow> int" where
  "py_int x = (if 0 \<le> x then \<lfloor>x\<rfloor> else \<lceil>x\<rceil>)"

subsection \<open>\<open>cv2.matchShapes\<close>\<close>

definition CV_CONTOURS_MATCH_I1 :: nat where "CV_CONTOURS_MATCH_I1 = 1"
definition CV_CONTOURS_MATCH_I2 :: nat where "CV_CONTOURS_MATCH_I2 = 2"
definition CV_CONTOURS_MATCH_I3 :: nat where "CV_CONTOURS_MATCH_I3 = 3"

text \<open>
  \<open>cv2.matchShapes(A, B, method, 0)\<close> compares the moment invariants of its two
  arguments. How a contour's invariant vector is computed is left open: it is the
  parameter \<open>hu\<close>. The three methods are as the source's comments on the constants (and
  the library's documentation) describe them: I1 the sum of absolute differences of the
  reciprocals, I2 the sum of absolute differences, I3 the greatest absolute difference
  normalised to \<open>A\<close>, the first argument. A component that is 0 in \<open>A\<close> adds nothing
  to I3 here (\<open>x / 0 = 0\<close> in HOL); the library leaves out components of negligible
  size.
\<close>

definition match_I1 :: "real list \<Rightarrow> real list \<Rightarrow> real" where
  "match_I1 ma mb = sum_list (map (\<lambda>(a, b). \<bar>1 / a - 1 / b\<bar>) (zip ma mb))"

definition match_I2 :: "real list \<Rightarrow> real list \<Rightarrow> real" where
  "match_I2 ma mb = sum_list (map (\<lambda>(a, b). \<bar>a - b\<bar>) (zip ma mb))"

definition match_I3 :: "real list \<Rightarrow> real list \<Rightarrow> real" where
  "match_I3 ma mb =
     fold (\<lambda>(a, b) result. let mmm = \<bar>(a - b) / a\<bar> in if result < mmm then mmm else result)
       (zip ma mb) 0"

definition matchShapes ::
  "(contour \<Rightarrow> real list) \<Rightarrow> contour \<Rightarrow> contour \<Rightarrow> nat \<Rightarrow> real" where
  "matchShapes hu A B method =
     (if method = CV_CONTOURS_MATCH_I1 then match_I1 (hu A) (hu B)
      else if method = CV_CONTOURS_MATCH_I2 then match_I2 (hu A) (hu B)
      else match_I3 (hu A) (hu B))"

subsection \<open>\<open>findCenters\<close>\<close>

text \<open>
  The loop over \<open>closeIndsPlus\<close>, from position \<open>i\<close> on. \<open>self.contours[ind]\<close> raises
  IndexError out of range; the moments are Python floats, so dividing by a zero \<open>m00\<close>
  raises ZeroDivisionError. The result is the rest of \<open>centers\<close>, of \<open>closeSizes\<close> and
  the entries of \<open>indDict\<close>.
\<close>

fun findCenters_loop ::
  "contour list \<Rightarrow> nat \<Rightarrow> int list \<Rightarrow>
   py_error + ((int \<times> int) list \<times> real list \<times> (int \<rightharpoonup> nat))" where
  "findCenters_loop cs i [] = Inr ([], [], Map.empty)"
| "findCenters_loop cs i (ind # inds) =
     (case py_get cs ind of
        Inl e \<Rightarrow> Inl e
      | Inr cont \<Rightarrow>
          let M = cv_moments cont
          in if m00 M = 0 then Inl ZeroDivisionError
             else (case findCenters_loop cs (Suc i) inds of
                     Inl e \<Rightarrow> Inl e
                   | Inr (cens, szs, d) \<Rightarrow>
                       Inr ((py_int (m10 M / m00 M), py_int (m01 M / m00 M)) # cens,
                            m00 M # szs, [ind \<mapsto> i] ++ d)))"

definition findCenters :: "analysis_window \<Rightarrow> py_error + analysis_window" where
  "findCenters st =
     (case findCenters_loop (contours st) 0 (closeIndsPlus st) of
        Inl e \<Rightarrow> Inl e
      | Inr (cens, szs, d) \<Rightarrow> Inr (st\<lparr>centers := cens, closeSizes := szs, indDict := d\<rparr>))"

subsection \<open>\<open>getSimilarContours\<close>\<close>

text \<open>
  The shape scores \<open>[cv2.matchShapes(self.contours[ind], self.contours[self.selectedCont],
  CV_CONTOURS_MATCH_I3, 0) for ind in self.closeInds]\<close>: the candidate is the first
  argument, the reference the second.
\<close>

fun shapeMatches ::
  "(contour \<Rightarrow> real list) \<Rightarrow> contour list \<Rightarrow> int \<Rightarrow> int list \<Rightarrow> py_error + real list" where
  "shapeMatches hu cs sel [] = Inr []"
| "shapeMatches hu cs sel (ind # inds) =
     (case py_get cs ind of
        Inl e \<Rightarrow> Inl e
      | Inr cand \<Rightarrow>
          (case py_get cs sel of
             Inl e \<Rightarrow> Inl e
           | Inr ref \<Rightarrow>
               (case shapeMatches hu cs sel inds of
                  Inl e \<Rightarrow> Inl e
                | Inr ms \<Rightarrow> Inr (matchShapes hu cand ref CV_CONTOURS_MATCH_I3 # ms))))"

text \<open>
  Both tolerances are clipped and rounded first. The size filter is
  \<open>np.where(np.isclose(self.sizes, self.sizes[self.selectedCont], rtol=V_sizeTol/100))\<close>,
  the shape filter keeps the indices whose score is below \<open>V_shapeTol\<close>. The manual
  removals are reset, the manual additions kept, and the effective set recomputed.
\<close>

definition sizeFilter :: "real list \<Rightarrow> real \<Rightarrow> real \<Rightarrow> int list" where
  "sizeFilter szs refsize tol =
     map int (filter (\<lambda>i. np_isclose (szs ! i) refsize (tol / 100) default_atol)
                [0..<length szs])"

definition getSimilarContours ::
  "(contour \<Rightarrow> real list) \<Rightarrow> analysis_window \<Rightarrow> py_error + analysis_window" where
  "getSimilarContours hu st0 =
     (let st1 = st0\<lparr>V_sizeTol := np_round (np_clip (V_sizeTol st0) 0 100) 1\<rparr>;
          st2 = st1\<lparr>V_shapeTol := np_round (np_clip (V_shapeTol st1) 0 2) 3\<rparr>
      in case py_get (sizes st2) (selectedCont st2) of
           Inl e \<Rightarrow> Inl e
         | Inr refsize \<Rightarrow>
             let bySize = sizeFilter (sizes st2) refsize (V_sizeTol st2)
             in (case shapeMatches hu (contours st2) (selectedCont st2) bySize of
                   Inl e \<Rightarrow> Inl e
                 | Inr ms \<Rightarrow>
                     let doesMatch = map (\<lambda>m. m < V_shapeTol st2) ms;
                         st3 = st2\<lparr>closeInds := map fst (filter snd (zip bySize doesMatch))\<rparr>;
                         st4 = st3\<lparr>removeConts := []\<rparr>;
                         st5 = st4\<lparr>closeIndsPlus := np_union1d (closeInds st4) (addConts st4)\<rparr>
                     in findCenters st5))"

subsection \<open>\<open>selectContour\<close> and \<open>appendContour\<close>\<close>

text \<open>
  \<open>inContour\<close> is the index of the contour under the mouse, \<open>-1\<close> when there is none;
  \<open>trackMouse\<close> keeps it up to date. A click on a contour makes it the reference and
  resets the three index lists; \<open>closeIndsPlus\<close> is not touched.
\<close>

definition trackMouse :: "int \<Rightarrow> analysis_window \<Rightarrow> analysis_window" where
  "trackMouse hit st = st\<lparr>inContour := hit\<rparr>"

definition selectContour :: "analysis_window \<Rightarrow> analysis_window" where
  "selectContour st =
     (if inContour st \<noteq> - 1
      then st\<lparr>selectedCont := inContour st, closeInds := [], addConts := [],
              removeConts := []\<rparr>
      else st)"

text \<open>
  A shift-click. With no similar contours it is redirected to \<open>selectContour\<close>.
  Otherwise the contour under the mouse is toggled in \<open>addConts\<close> (when it is not
  matched) or in \<open>removeConts\<close> (when it is), the effective set is recomputed as
  \<open>setdiff1d(union1d(closeInds, addConts), removeConts)\<close>, and the centres are found again.
\<close>

definition appendContour :: "analysis_window \<Rightarrow> py_error + analysis_window" where
  "appendContour st =
     (if length (closeInds st) = 0 then Inr (selectContour st)
      else
        let c = inContour st;
            st1 = (if c \<notin> set (closeInds st) \<and> c \<notin> set (addConts st)
                     then st\<lparr>addConts := addConts st @ [c]\<rparr>
                   else if c \<notin> set (closeInds st) \<and> c \<in> set (addConts st)
                     then st\<lparr>addConts := remove1 c (addConts st)\<rparr>
                   else if c \<in> set (closeInds st) \<and> c \<notin> set (removeConts st)
                     then st\<lparr>removeConts := removeConts st @ [c]\<rparr>
                   else if c \<in> set (closeInds st) \<and> c \<in> set (removeConts st)
                     then st\<lparr>removeConts := remove1 c (removeConts st)\<rparr>
                   else st);
            st2 = st1\<lparr>closeIndsPlus := np_union1d (closeInds st1) (addConts st1)\<rparr>;
            st3 = st2\<lparr>closeIndsPlus := np_setdiff1d (closeIndsPlus st2) (removeConts st2)\<rparr>
        in findCenters st3)"

subsection \<open>\<open>cvDilateErode\<close>\<close>







subsection \<open>Slicing, bounding boxes and masked statistics\<close>

text \<open>A slice \<open>xs[lo:hi]\<close>: negative bounds count from the end, all bounds are clamped.\<close>

definition py_slice :: "int \<Rightarrow> int \<Rightarrow> 'a list \<Rightarrow> 'a list" where
  "py_slice lo hi xs =
     (let n = int (length xs);
          l = (if lo < 0 then max 0 (lo + n) else min lo n);
          h = (if hi < 0 then max 0 (hi + n) else min hi n)
      in take (nat (h - l)) (drop (nat l) xs))"

text \<open>The crop \<open>a[y:y+h, x:x+w]\<close> of a two-dimensional array.\<close>

definition crop :: "'a list list \<Rightarrow> int \<Rightarrow> int \<Rightarrow> int \<Rightarrow> int \<Rightarrow> 'a list list" where
  "crop a y h x w = map (py_slice x (x + w)) (py_slice y (y + h) a)"

text \<open>\<open>cv2.boundingRect\<close>: the upright rectangle \<open>(x, y, w, h)\<close> around the points.\<close>

definition boundingRect :: "contour \<Rightarrow> int \<times> int \<times> int \<times> int" where
  "boundingRect c =
     (case c of
        [] \<Rightarrow> (0, 0, 0, 0)
      | p # ps \<Rightarrow>
          let x0 = fold min (map fst ps) (fst p); x1 = fold max (map fst ps) (fst p);
              y0 = fold min (map snd ps) (snd p); y1 = fold max (map snd ps) (snd p)
          in (x0, y0, x1 - x0 + 1, y1 - y0 + 1))"

definition channel :: "nat \<Rightarrow> pixel \<Rightarrow> nat" where
  "channel k p = (case p of (c0, c1, c2) \<Rightarrow> if k = 0 then c0 else if k = 1 then c1 else c2)"

text \<open>
  The source masks an element where \<open>1 - mask / 255\<close> is non-zero, so a pixel is
  included exactly when its mask value is 255. \<open>included_values\<close> lists one channel of
  the included pixels of a crop.
\<close>

definition included_values :: "image \<Rightarrow> mask \<Rightarrow> nat \<Rightarrow> real list" where
  "included_values img msk k =
     map (\<lambda>(p, m). real (channel k p)) (filter (\<lambda>(p, m). m = 255) (zip (concat img) (concat msk)))"

text \<open>
  Mean and (population) standard deviation of a masked array along the pixel axes. With no
  included value the result is masked: \<open>None\<close>. NumPy raises no exception there.
\<close>

definition ma_mean :: "real list \<Rightarrow> real option" where
  "ma_mean xs = (if xs = [] then None else Some (sum_list xs / real (length xs)))"

definition ma_std :: "real list \<Rightarrow> real option" where
  "ma_std xs =
     (if xs = [] then None
      else let mu = sum_list xs / real (length xs)
           in Some (sqrt (sum_list (map (\<lambda>x. (x - mu)\<^sup>2) xs) / real (length xs))))"

definition getAvColor :: "image \<Rightarrow> mask option \<Rightarrow> real option list \<times> real option list" where
  "getAvColor img mask_arg =
     (case mask_arg of
        Some msk \<Rightarrow>
          (map (\<lambda>k. ma_mean (included_values img msk k)) [0, 1, 2],
           map (\<lambda>k. ma_std (included_values img msk k)) [0, 1, 2])
      | None \<Rightarrow>
          (map (\<lambda>k. ma_mean (map (\<lambda>p. real (channel k p)) (concat img))) [0, 1, 2],
           map (\<lambda>k. ma_std (map (\<lambda>p. real (channel k p)) (concat img))) [0, 1, 2]))"

subsection \<open>\<open>analyzeContours\<close>\<close>

text \<open>\<open>np.argmax\<close>: the first index of the greatest entry; ValueError on an empty array.\<close>

definition np_argmax :: "real list \<Rightarrow> py_error + nat" where
  "np_argmax xs =
     (case xs of
        [] \<Rightarrow> Inl ValueError
      | x # ys \<Rightarrow> Inr (length (takeWhile (\<lambda>v. v \<noteq> fold max ys x) xs)))"

text \<open>
  \<open>np.lexsort((secondary, primary))\<close>: the indices that sort by the last key first, then
  by the one before it; the sort is stable.
\<close>

definition np_lexsort :: "int list \<Rightarrow> int list \<Rightarrow> nat list" where
  "np_lexsort secondary primary =
     sort_key (\<lambda>i. (primary ! i, secondary ! i)) [0..<length primary]"

record sample =
  avRGB :: "real option list"
  stdRGB :: "real option list"
  avHSV :: "real option list"
  stdHSV :: "real option list"
  avLAB :: "real option list"
  stdLAB :: "real option list"
  maskArea :: real

text \<open>
  The crop window of zone \<open>i\<close> and its mask. Without refined masks the window is the
  bounding box of the contour and the mask is the filled contour, drawn by the parameter
  \<open>fill\<close> (\<open>cv2.drawContours\<close> with negative thickness on a blank image). With refined
  masks the window is centred on the refined centre and sized by \<open>refiner_data\<close>.
\<close>

definition zone_window ::
  "(contour \<Rightarrow> mask) \<Rightarrow> analysis_window \<Rightarrow> nat \<Rightarrow>
   py_error + (mask \<times> int \<times> int \<times> int \<times> int)" where
  "zone_window fill st i =
     (case py_get (closeIndsPlus st) (int i) of
        Inl e \<Rightarrow> Inl e
      | Inr ind \<Rightarrow>
     (case py_get (contours st) ind of
        Inl e \<Rightarrow> Inl e
      | Inr cont \<Rightarrow>
          if length (refinedMasks st) = 0
          then (case boundingRect cont of (x, y, w, h) \<Rightarrow> Inr (fill cont, x, y, w, h))
          else
            (case py_get (refinedMasks st) (int i) of
               Inl e \<Rightarrow> Inl e
             | Inr contMask \<Rightarrow>
            (case py_get (refinedCenters st) (int i) of
               Inl e \<Rightarrow> Inl e
             | Inr center \<Rightarrow>
            (case py_get (refiner_data st) 0 of
               Inl e \<Rightarrow> Inl e
             | Inr r0 \<Rightarrow>
            (case py_get (refiner_data st) (- 1) of
               Inl e \<Rightarrow> Inl e
             | Inr r1 \<Rightarrow>
                 Inr (contMask, fst center - r0, snd center - r1, r0 * 2 + 1, r1 * 2 + 1)))))))"

text \<open>
  Sampling one window: the three colour spaces through \<open>getAvColor\<close>, the BGR results
  reversed into RGB order, and the mask area \<open>np.sum(mask) / 255\<close>.
\<close>

definition sample_window ::
  "analysis_window \<Rightarrow> mask \<Rightarrow> int \<Rightarrow> int \<Rightarrow> int \<Rightarrow> int \<Rightarrow> sample" where
  "sample_window st contMask x y w h =
     (let m = crop contMask y h x w;
          rgb = getAvColor (crop (im st) y h x w) (Some m);
          hsv = getAvColor (crop (imHSV st) y h x w) (Some m);
          lab = getAvColor (crop (imLAB st) y h x w) (Some m)
      in \<lparr>avRGB = rev (fst rgb), stdRGB = rev (snd rgb),
          avHSV = fst hsv, stdHSV = snd hsv,
          avLAB = fst lab, stdLAB = snd lab,
          maskArea = real (sum_list (concat m)) / 255\<rparr>)"

definition bitwise_or_mask :: "mask \<Rightarrow> mask \<Rightarrow> mask" where
  "bitwise_or_mask a b = map (\<lambda>(ra, rb). map (\<lambda>(u, v). or u v) (zip ra rb)) (zip a b)"

text \<open>
  The loop over the zones \<open>i, i + 1, \<dots>\<close>; \<open>k\<close> counts the zones left. It returns the
  samples in zone order and the union mask.
\<close>

fun analyze_loop ::
  "(contour \<Rightarrow> mask) \<Rightarrow> analysis_window \<Rightarrow> nat \<Rightarrow> nat \<Rightarrow> mask \<Rightarrow>
   py_error + (sample list \<times> mask)" where
  "analyze_loop fill st i 0 tot = Inr ([], tot)"
| "analyze_loop fill st i (Suc k) tot =
     (case zone_window fill st i of
        Inl e \<Rightarrow> Inl e
      | Inr (contMask, x, y, w, h) \<Rightarrow>
          let tot1 = (if length (refinedMasks st) = 0 then bitwise_or_mask contMask tot
                        else tot);
              smp = sample_window st contMask x y w h
          in (case analyze_loop fill st (Suc i) k tot1 of
                Inl e \<Rightarrow> Inl e
              | Inr (smps, tot2) \<Rightarrow> Inr (smp # smps, tot2)))"

subsection \<open>\<open>saveColors\<close>\<close>

datatype cell = Id nat | Num "real option" | Blank

record csv =
  header :: string
  rows :: "cell list list"

definition RGB2grayscale_weights :: "real list" where
  "RGB2grayscale_weights = [299 / 1000, 587 / 1000, 114 / 1000]"

text \<open>
  \<open>np.dot\<close> of one row with the weights. A row with a masked entry has no defined
  product.
\<close>

definition np_dot :: "real option list \<Rightarrow> real list \<Rightarrow> real option" where
  "np_dot row ws =
     (if None \<in> set row then None
      else Some (sum_list (map (\<lambda>(v, w). the v * w) (zip row ws))))"

definition grayscale_of :: "real option list \<Rightarrow> real option" where
  "grayscale_of rgb = np_dot rgb RGB2grayscale_weights"

definition std_grayscale_of :: "real option list \<Rightarrow> real option" where
  "std_grayscale_of std_rgb =
     map_option sqrt
       (np_dot (map (map_option (\<lambda>v. v\<^sup>2)) std_rgb) (map (\<lambda>w. w\<^sup>2) RGB2grayscale_weights))"

text \<open>The unit conversions of the HSV and Lab rows, applied in place before writing.\<close>

definition hsv_out :: "real option list \<Rightarrow> real option list" where
  "hsv_out row =
     (case row of
        [] \<Rightarrow> []
      | h # sv \<Rightarrow> map_option (\<lambda>v. v / 180 * 360) h # map (map_option (\<lambda>v. np_round (v / 255) 8)) sv)"

definition lab_out :: "real option list \<Rightarrow> real option list" where
  "lab_out row =
     (case row of
        [] \<Rightarrow> []
      | l # ab \<Rightarrow> map_option (\<lambda>v. np_round (v / 255 * 100) 8) l # map (map_option (\<lambda>v. v - 128)) ab)"

definition std_lab_out :: "real option list \<Rightarrow> real option list" where
  "std_lab_out row =
     (case row of
        [] \<Rightarrow> []
      | l # ab \<Rightarrow> map_option (\<lambda>v. np_round (v / 255 * 100) 8) l # ab)"

text \<open>
  The local variables \<open>rgb\<close> and \<open>std_rgb\<close> are assigned only inside
  \<open>if self.V_saveRGB.get():\<close>; the grayscale lines read them unconditionally, which
  raises UnboundLocalError when they were never assigned. The rows are assembled column
  group by column group, as \<open>np.concatenate(..., axis=1)\<close> does; row \<open>i\<close> carries the
  label \<open>i + 1\<close>.
\<close>

definition saveColors :: "analysis_window \<Rightarrow> py_error + (analysis_window \<times> csv)" where
  "saveColors st =
     (let n = length (closeIndsPlus st);
          rgb_local = (if V_saveRGB st then Some (avcolorsRGB st, stdsRGB st) else None);
          header1 = ''id'' @ (if V_saveRGB st then '',R,G,B,std R,std G,std B,'' else [])
      in case rgb_local of
           None \<Rightarrow> Inl UnboundLocalError
         | Some (rgb, std_rgb) \<Rightarrow>
             let header2 = header1 @ '',Gray,std Gray,'';
                 st1 = (if V_saveHSV st
                        then st\<lparr>avcolorsHSV := map hsv_out (avcolorsHSV st),
                                stdsHSV := map hsv_out (stdsHSV st)\<rparr>
                        else st);
                 header3 = header2 @ (if V_saveHSV st then '',H,S,V,std H,std S,std V,'' else []);
                 st2 = (if V_saveLAB st
                        then st1\<lparr>avcolorsLAB := map lab_out (avcolorsLAB st1),
                                 stdsLAB := map std_lab_out (stdsLAB st1)\<rparr>
                        else st1);
                 header4 = header3 @ (if V_saveLAB st then '',L,a,b,std L,std a,std b,'' else []);
                 row = (\<lambda>i.
                   [Id (i + 1)]
                   @ (if V_saveRGB st then map Num (rgb ! i) @ map Num (std_rgb ! i) @ [Blank] else [])
                   @ [Num (grayscale_of (rgb ! i)), Num (std_grayscale_of (std_rgb ! i)), Blank]
                   @ (if V_saveHSV st
                      then map Num (avcolorsHSV st2 ! i) @ map Num (stdsHSV st2 ! i) @ [Blank] else [])
                   @ (if V_saveLAB st
                      then map Num (avcolorsLAB st2 ! i) @ map Num (stdsLAB st2 ! i) @ [Blank] else [])
                   @ [Num (Some (maskAreas st2 ! i))])
             in Inr (st2, \<lparr>header = header4 @ '',Area [pixels]'', rows = map row [0..<n]\<rparr>))"

text \<open>
  \<open>analyzeContours\<close>: the largest zone is looked up (for the label size), the zones are
  reordered by \<open>np.lexsort((centers[:,0], centers[:,1]))\<close>, every zone is sampled, and
  \<open>saveColors\<close> writes the table. Creating the output folder, the labels, the crops
  and the histograms are file and display output and are not modelled.
\<close>

definition reorder_zones :: "analysis_window \<Rightarrow> py_error + analysis_window" where
  "reorder_zones st =
     (let sort_inds = np_lexsort (map fst (centers st)) (map snd (centers st))
      in case py_take (closeIndsPlus st) (map int sort_inds) of
           Inl e \<Rightarrow> Inl e
         | Inr cip \<Rightarrow>
             let st1 = st\<lparr>closeIndsPlus := cip\<rparr>;
                 st2 = st1\<lparr>centers := map (\<lambda>i. centers st1 ! i) sort_inds\<rparr>
             in if length (refinedMasks st2) \<noteq> 0
                then (case py_take (refinedMasks st2) (map int sort_inds) of
                        Inl e \<Rightarrow> Inl e
                      | Inr rm \<Rightarrow>
                          (case py_take (refinedCenters st2) (map int sort_inds) of
                             Inl e \<Rightarrow> Inl e
                           | Inr rc \<Rightarrow> Inr (st2\<lparr>refinedMasks := rm, refinedCenters := rc\<rparr>)))
                else Inr st2)"

definition analyzeContours ::
  "(contour \<Rightarrow> mask) \<Rightarrow> analysis_window \<Rightarrow> py_error + (analysis_window \<times> csv)" where
  "analyzeContours fill st =
     (case np_argmax (closeSizes st) of
        Inl e \<Rightarrow> Inl e
      | Inr k \<Rightarrow>
     (case py_get (closeIndsPlus st) (int k) of
        Inl e \<Rightarrow> Inl e
      | Inr largestContInd \<Rightarrow>
     (case py_get (contours st) largestContInd of
        Inl e \<Rightarrow> Inl e
      | Inr largest \<Rightarrow>
     (case reorder_zones st of
        Inl e \<Rightarrow> Inl e
      | Inr st1 \<Rightarrow>
     (case analyze_loop fill st1 0 (length (closeIndsPlus st1)) (totalMask st1) of
        Inl e \<Rightarrow> Inl e
      | Inr (smps, tot) \<Rightarrow>
          saveColors
            (st1\<lparr>avcolorsRGB := map avRGB smps, avcolorsHSV := map avHSV smps,
                 avcolorsLAB := map avLAB smps, stdsRGB := map stdRGB smps,
                 stdsHSV := map stdHSV smps, stdsLAB := map stdLAB smps,
                 maskAreas := map maskArea smps, totalMask := tot\<rparr>))))))"

subsection \<open>\<open>refineZones\<close>\<close>

text \<open>
  The part of \<open>refineZones\<close> after the dialog has returned the displacement and the size
  arguments. \<open>drawShape m c\<close> stands for
  \<open>drawShape(m, zoneShape, c, refiner_data, color=255, thickness=-1)\<close>. Every centre is
  displaced by \<open>(displace_x, -displace_y)\<close>; each zone gets its own mask, drawn on a
  blank image, and all shapes are drawn on the union mask.
\<close>

definition refineZones ::
  "(mask \<Rightarrow> int \<times> int \<Rightarrow> mask) \<Rightarrow> int \<Rightarrow> int \<Rightarrow> int list \<Rightarrow>
   analysis_window \<Rightarrow> analysis_window" where
  "refineZones drawShape displace_x displace_y data st =
     (let blank = map (map (\<lambda>_. 0)) (im st);
          rc = map (\<lambda>c. (fst c + displace_x, snd c - displace_y)) (centers st)
      in st\<lparr>refiner_data := data,
            refinedMasks := map (drawShape blank) rc,
            refinedCenters := rc,
            totalMask := fold (\<lambda>c m. drawShape m c) rc blank\<rparr>)"

text \<open>
  What holds of the state when the Analyze button can be pressed: RGB output is ticked,
  the effective set is not empty, \<open>findCenters\<close> has filled \<open>centers\<close> and \<open>closeSizes\<close>
  for it, its indices address contours, and refined masks, when present, exist for every
  zone.
\<close>

definition analysis_ready :: "analysis_window \<Rightarrow> bool" where
  "analysis_ready st =
     (V_saveRGB st \<and> closeIndsPlus st \<noteq> []
      \<and> length (closeSizes st) = length (closeIndsPlus st)
      \<and> length (centers st) = length (closeIndsPlus st)
      \<and> list_all (\<lambda>ind. py_index (length (contours st)) ind \<noteq> None) (closeIndsPlus st)
      \<and> (refinedMasks st = []
          \<or> length (refinedMasks st) = length (closeIndsPlus st)
            \<and> length (refinedCenters st) = length (closeIndsPlus st)
            \<and> refiner_data st \<noteq> []))"


subsection \<open>The initial state and example data\<close>

text \<open>The attribute values set by \<open>__init__\<close>, for an image \<open>img\<close> and its two conversions.\<close>

definition init_window :: "image \<Rightarrow> image \<Rightarrow> image \<Rightarrow> analysis_window" where
  "init_window img hsv lab =
     \<lparr>contours = [], sizes = [], selectedCont = - 1, inContour = - 1,
      closeInds = [], closeIndsPlus = [], addConts = [], removeConts = [],
      V_sizeTol = 20, V_shapeTol = 1, centers = [], closeSizes = [], indDict = Map.empty,
      refinedMasks = [], refinedCenters = [], refiner_data = [],
      im = img, imHSV = hsv, imLAB = lab,
      totalMask = map (map (\<lambda>_. 0)) img, analyzed = [],
      V_dilerocode = [], dilateCounter = 0, erodeCounter = 0,
      V_saveRGB = True, V_saveHSV = True, V_saveLAB = True,
      avcolorsRGB = [], avcolorsHSV = [], avcolorsLAB = [],
      stdsRGB = [], stdsHSV = [], stdsLAB = [], maskAreas = []\<rparr>"

text \<open>
  An example image of 14 rows and 16 columns in BGR order, one colour on the left nine
  columns and another on the right seven, with constant HSV and Lab conversions.
\<close>

definition ex_im :: image where
  "ex_im = replicate 14 (replicate 9 (10, 20, 30) @ replicate 7 (40, 50, 60))"

definition ex_hsv :: image where
  "ex_hsv = replicate 14 (replicate 16 (90, 51, 102))"

definition ex_lab :: image where
  "ex_lab = replicate 14 (replicate 16 (51, 128, 130))"

text \<open>
  Stand-ins for the rasterisers, used in the examples only: \<open>draw_box\<close> sets to 255 the
  pixels of an upright box given by two corners, \<open>ex_fill\<close> fills the bounding box of a
  contour on a blank mask of the example image's size, and \<open>ex_rectangle\<close> is the
  rectangle case of \<open>drawShape\<close>, whose corners are the centre minus and plus half the
  size, truncated.
\<close>

definition draw_box :: "mask \<Rightarrow> int \<times> int \<Rightarrow> int \<times> int \<Rightarrow> mask" where
  "draw_box m c0 c1 =
     map (\<lambda>(y, row).
           map (\<lambda>(x, v). if fst c0 \<le> int x \<and> int x \<le> fst c1 \<and> snd c0 \<le> int y \<and> int y \<le> snd c1
                          then 255 else v)
             (zip [0..<length row] row))
       (zip [0..<length m] m)"

definition ex_fill :: "contour \<Rightarrow> mask" where
  "ex_fill c =
     (case boundingRect c of
        (x, y, w, h) \<Rightarrow> draw_box (map (map (\<lambda>_. 0)) ex_im) (x, y) (x + w - 1, y + h - 1))"

definition ex_rectangle :: "int \<Rightarrow> int \<Rightarrow> mask \<Rightarrow> int \<times> int \<Rightarrow> mask" where
  "ex_rectangle width height m center =
     draw_box m
       (py_int (of_int (fst center) - of_int width / 2),
        py_int (of_int (snd center) - of_int height / 2))
       (py_int (of_int (fst center) + of_int width / 2),
        py_int (of_int (snd center) + of_int height / 2))"

definition ex_window :: analysis_window where
  "ex_window = init_window ex_im ex_hsv ex_lab"

text \<open>Three traced contours: a 3 by 3 square, a small triangle and a 3 by 2 rectangle.\<close>

definition c_square :: contour where
  "c_square = [(5, 5), (5, 8), (8, 8), (8, 5)]"

definition c_speck :: contour where
  "c_speck = [(0, 0), (0, 1), (1, 0)]"

definition c_rect :: contour where
  "c_rect = [(10, 5), (10, 7), (13, 7), (13, 5)]"


text \<open>
  A stand-in for the invariant vector, used in the examples only, and a session on the
  example contours: the square (index 1 after sorting) is clicked, the tolerances are set
  to 50 percent and 0.4, similar contours are searched, the rectangle (index 0) is added
  by a shift-click, the shape tolerance is moved to 0, and the square is shift-clicked.
\<close>

definition hu_ex :: "contour \<Rightarrow> real list" where
  "hu_ex c = [contourArea c / 3]"

definition ex_contours :: analysis_window where
  "ex_contours = cvContour [c_square, c_speck, c_rect] ex_window"

definition ex_selected :: analysis_window where
  "ex_selected = (selectContour (trackMouse 1 ex_contours))\<lparr>V_sizeTol := 50, V_shapeTol := 2 / 5\<rparr>"

definition ex_matched :: analysis_window where
  "ex_matched = projr (getSimilarContours hu_ex ex_selected)"

definition ex_added :: analysis_window where
  "ex_added = projr (appendContour (trackMouse 0 ex_matched))"

definition ex_zero_tol :: analysis_window where
  "ex_zero_tol = projr (getSimilarContours hu_ex (ex_added\<lparr>V_shapeTol := 0\<rparr>))"

definition ex_reselect :: analysis_window where
  "ex_reselect = projr (appendContour (trackMouse 1 ex_zero_tol))"

text \<open>
  Two analysis runs on the example session: one on the two contour zones, and one after
  refining the single matched zone (the square, centre \<open>(6, 6)\<close>) with a rectangle of
  width and height 8 and no displacement.
\<close>

definition ex_run :: "analysis_window \<times> csv" where
  "ex_run = projr (analyzeContours ex_fill ex_added)"



text \<open>A third run, after refining both zones with a rectangle of width and height 2.\<close>

definition ex_refined_pair :: analysis_window where
  "ex_refined_pair = refineZones (ex_rectangle 2 2) 0 0 [2, 2] ex_added"

definition ex_refined_pair_run :: "analysis_window \<times> csv" where
  "ex_refined_pair_run = projr (analyzeContours ex_fill ex_refined_pair)"




section \<open>Properties\<close>

subsection \<open>Contour extraction\<close>

lemma argsort_set: "set (argsort xs) = {0..<length xs}"
  by (simp add: argsort_def)

lemma argsort_mset: "mset (argsort xs) = mset [0..<length xs]"
  by (simp add: argsort_def)

lemma argsort_sorted: "sorted (map (\<lambda>i. xs ! i) (argsort xs))"
  by (simp add: argsort_def)

lemma cvContour_sizes:
  "sizes (cvContour res st) = map contourArea (contours (cvContour res st))"
  by (simp add: cvContour_def Let_def argsort_set)

lemma cvContour_sorted: "sorted (sizes (cvContour res st))"
proof -
  let ?s = "map contourArea res"
  have "sorted (map (\<lambda>i. ?s ! i) (filter (\<lambda>i. ?s ! i > 5) (argsort ?s)))"
    using argsort_sorted [of ?s] by (rule sorted_filter)
  then show ?thesis by (simp add: cvContour_def Let_def)
qed

lemma cvContour_above: "a \<in> set (sizes (cvContour res st)) \<Longrightarrow> 5 < a"
  by (auto simp: cvContour_def Let_def)

lemma mset_map_nth_upt: "image_mset (\<lambda>i. xs ! i) (mset [0..<length xs]) = mset xs"
  by (metis map_nth mset_map)

lemma cvContour_keeps:
  "mset (contours (cvContour res st)) = filter_mset (\<lambda>c. 5 < contourArea c) (mset res)"
proof -
  let ?s = "map contourArea res"
  have "mset (map (\<lambda>i. res ! i) (filter (\<lambda>i. ?s ! i > 5) (argsort ?s)))
      = image_mset (\<lambda>i. res ! i) (filter_mset (\<lambda>i. ?s ! i > 5) (mset (argsort ?s)))"
    by simp
  also have "\<dots> = image_mset (\<lambda>i. res ! i)
        (filter_mset (\<lambda>i. 5 < contourArea (res ! i)) (mset [0..<length res]))"
  proof -
    have "filter_mset (\<lambda>i. ?s ! i > 5) (mset [0..<length res])
        = filter_mset (\<lambda>i. 5 < contourArea (res ! i)) (mset [0..<length res])"
      by (rule filter_mset_cong) auto
    then show ?thesis by (simp only: argsort_mset length_map)
  qed
  also have "\<dots> = filter_mset (\<lambda>c. 5 < contourArea c)
        (image_mset (\<lambda>i. res ! i) (mset [0..<length res]))"
    by (simp add: filter_mset_image_mset comp_def)
  also have "\<dots> = filter_mset (\<lambda>c. 5 < contourArea c) (mset res)"
    by (simp only: mset_map_nth_upt)
  finally show ?thesis by (simp add: cvContour_def Let_def)
qed

text \<open>
  C6. Whatever contours the tracer returns for a mask, \<open>cvContour\<close> keeps exactly those
  whose area is above 5, so no contour of area at most 5 is in its output; the area array
  is parallel to the contour array (entry \<open>i\<close> is the area of contour \<open>i\<close>), and it is
  sorted ascending.
\<close>

theorem cvContour_filtered_sorted:
  "(\<forall>c \<in> set (contours (cvContour res st)). 5 < contourArea c)
   \<and> mset (contours (cvContour res st)) = filter_mset (\<lambda>c. 5 < contourArea c) (mset res)
   \<and> sizes (cvContour res st) = map contourArea (contours (cvContour res st))
   \<and> sorted (sizes (cvContour res st))"
proof -
  have "\<forall>c \<in> set (contours (cvContour res st)). 5 < contourArea c"
    using cvContour_above [of _ res st] by (simp add: cvContour_sizes)
  then show ?thesis
    using cvContour_keeps cvContour_sizes cvContour_sorted by blast
qed

lemma area_c_square: "contourArea c_square = 9"
  by (simp add: contourArea_def c_square_def dxy_def)

lemma area_c_speck: "contourArea c_speck = 1 / 2"
  by (simp add: contourArea_def c_speck_def dxy_def)

lemma area_c_rect: "contourArea c_rect = 6"
  by (simp add: contourArea_def c_rect_def dxy_def)

lemma upt_3: "[0..<3] = [0, 1, 2]"
  by (simp add: upt_conv_Cons)

lemma cvContour_example:
  "contours (cvContour [c_square, c_speck, c_rect] ex_window) = [c_rect, c_square]
   \<and> sizes (cvContour [c_square, c_speck, c_rect] ex_window) = [6, 9]"
  by (simp add: cvContour_def argsort_def area_c_square area_c_speck area_c_rect upt_3 Let_def)

theorem cvContour_filtered_sorted_witness:
  "contours (cvContour [c_square, c_speck, c_rect] ex_window) = [c_rect, c_square]
   \<and> sizes (cvContour [c_square, c_speck, c_rect] ex_window) = [6, 9]
   \<and> 5 < contourArea c_rect \<and> 5 < contourArea c_square
   \<and> sorted [6, 9 :: real]"
  using cvContour_filtered_sorted [of "[c_square, c_speck, c_rect]" ex_window]
  by (simp add: cvContour_example)

subsection \<open>The example session, evaluated\<close>

lemma upt_2: "[0..<2] = [0, 1]"
  by (simp add: upt_conv_Cons)

lemma ex_contours_eq:
  "ex_contours = ex_window\<lparr>contours := [c_rect, c_square], sizes := [6, 9]\<rparr>"
  by (simp add: ex_contours_def cvContour_def argsort_def area_c_square area_c_speck area_c_rect
      upt_3 Let_def ex_window_def init_window_def)

lemma mom_square: "cv_moments c_square = \<lparr>m00 = 9, m10 = 117 / 2, m01 = 117 / 2\<rparr>"
  by (simp add: cv_moments_def c_square_def dxy_def Let_def)

lemma mom_rect: "cv_moments c_rect = \<lparr>m00 = 6, m10 = 69, m01 = 36\<rparr>"
  by (simp add: cv_moments_def c_rect_def dxy_def Let_def)

lemma round_half_even_int: "round_half_even (of_int n) = n"
  by (simp add: round_half_even_def)

lemma np_round_50: "np_round (np_clip 50 0 100) (Suc 0) = 50"
  using round_half_even_int [of 500] by (simp add: np_round_def np_clip_def)

lemma np_round_04: "np_round (np_clip (2 / 5) 0 2) 3 = 2 / 5"
  using round_half_even_int [of 400] by (simp add: np_round_def np_clip_def)

lemma np_round_0: "np_round (np_clip 0 0 2) 3 = 0"
  by (simp add: np_round_def np_clip_def round_half_even_def)

lemma ex_selected_eq:
  "ex_selected = ex_window\<lparr>contours := [c_rect, c_square], sizes := [6, 9],
     selectedCont := 1, inContour := 1, V_sizeTol := 50, V_shapeTol := 2 / 5\<rparr>"
  by (simp add: ex_selected_def ex_contours_eq selectContour_def trackMouse_def ex_window_def
      init_window_def)

lemma centers_1: "findCenters_loop [c_rect, c_square] 0 [1] = Inr ([(6, 6)], [9], [1 \<mapsto> 0])"
  by (simp add: py_get_def py_index_def mom_square py_int_def)

lemma centers_01:
  "findCenters_loop [c_rect, c_square] 0 [0, 1]
   = Inr ([(11, 6), (6, 6)], [6, 9], [0 \<mapsto> 0, 1 \<mapsto> 1])"
  by (simp add: py_get_def py_index_def mom_square mom_rect py_int_def)

lemma centers_0: "findCenters_loop [c_rect, c_square] 0 [0] = Inr ([(11, 6)], [6], [0 \<mapsto> 0])"
  by (simp add: py_get_def py_index_def mom_rect py_int_def)

lemma sizeFilter_ex: "sizeFilter [6, 9] 9 50 = [0, 1]"
  by (simp add: sizeFilter_def upt_2 np_isclose_def default_atol_def)

lemma matchShapes_I3: "matchShapes hu A B CV_CONTOURS_MATCH_I3 = match_I3 (hu A) (hu B)"
  by (simp add: matchShapes_def CV_CONTOURS_MATCH_I1_def CV_CONTOURS_MATCH_I2_def
      CV_CONTOURS_MATCH_I3_def)

lemma shapeMatches_ex: "shapeMatches hu_ex [c_rect, c_square] 1 [0, 1] = Inr [1 / 2, 0]"
  by (simp add: py_get_def py_index_def matchShapes_I3 match_I3_def hu_ex_def area_c_square
      area_c_rect)

lemma ref_size_ex: "py_get [6, 9 :: real] 1 = Inr 9"
  by (simp add: py_get_def py_index_def)

lemma ex_matched_run:
  "getSimilarContours hu_ex ex_selected
   = Inr (ex_selected\<lparr>closeInds := [1], closeIndsPlus := [1], centers := [(6, 6)],
       closeSizes := [9], indDict := [1 \<mapsto> 0]\<rparr>)"
  by (simp add: getSimilarContours_def ex_selected_eq ex_window_def init_window_def
      np_round_50 np_round_04 ref_size_ex sizeFilter_ex shapeMatches_ex Let_def np_union1d_def
      findCenters_def centers_1
      del: shapeMatches.simps findCenters_loop.simps)

lemma ex_matched_eq:
  "ex_matched = ex_selected\<lparr>closeInds := [1], closeIndsPlus := [1], centers := [(6, 6)],
     closeSizes := [9], indDict := [1 \<mapsto> 0]\<rparr>"
  by (simp add: ex_matched_def ex_matched_run)

lemma ex_added_run:
  "appendContour (trackMouse 0 ex_matched)
   = Inr (ex_matched\<lparr>inContour := 0, addConts := [0], closeIndsPlus := [0, 1],
       centers := [(11, 6), (6, 6)], closeSizes := [6, 9], indDict := [0 \<mapsto> 0, 1 \<mapsto> 1]\<rparr>)"
  by (simp add: appendContour_def trackMouse_def ex_matched_eq ex_selected_eq ex_window_def
      init_window_def Let_def np_union1d_def np_setdiff1d_def findCenters_def centers_01
      del: findCenters_loop.simps)

lemma ex_added_eq:
  "ex_added = ex_matched\<lparr>inContour := 0, addConts := [0], closeIndsPlus := [0, 1],
     centers := [(11, 6), (6, 6)], closeSizes := [6, 9], indDict := [0 \<mapsto> 0, 1 \<mapsto> 1]\<rparr>"
  by (simp add: ex_added_def ex_added_run)

lemma ex_zero_tol_run:
  "getSimilarContours hu_ex (ex_added\<lparr>V_shapeTol := 0\<rparr>)
   = Inr (ex_added\<lparr>V_shapeTol := 0, closeInds := [], closeIndsPlus := [0],
       centers := [(11, 6)], closeSizes := [6], indDict := [0 \<mapsto> 0]\<rparr>)"
  by (simp add: getSimilarContours_def ex_added_eq ex_matched_eq ex_selected_eq ex_window_def
      init_window_def np_round_50 np_round_0 ref_size_ex sizeFilter_ex shapeMatches_ex Let_def
      np_union1d_def findCenters_def centers_0
      del: shapeMatches.simps findCenters_loop.simps)

lemma ex_zero_tol_eq:
  "ex_zero_tol = ex_added\<lparr>V_shapeTol := 0, closeInds := [], closeIndsPlus := [0],
     centers := [(11, 6)], closeSizes := [6], indDict := [0 \<mapsto> 0]\<rparr>"
  by (simp add: ex_zero_tol_def ex_zero_tol_run)

lemma ex_reselect_run:
  "appendContour (trackMouse 1 ex_zero_tol)
   = Inr (ex_zero_tol\<lparr>inContour := 1, selectedCont := 1, closeInds := [], addConts := [],
       removeConts := []\<rparr>)"
  by (simp add: appendContour_def selectContour_def trackMouse_def ex_zero_tol_eq ex_added_eq
      ex_matched_eq ex_selected_eq ex_window_def init_window_def)

lemma ex_reselect_eq:
  "ex_reselect = ex_zero_tol\<lparr>inContour := 1, selectedCont := 1, closeInds := [],
     addConts := [], removeConts := []\<rparr>"
  by (simp add: ex_reselect_def ex_reselect_run)

subsection \<open>Centroids\<close>

lemma m00_area: "m00 (cv_moments c) = contourArea c"
  by (simp add: cv_moments_def contourArea_def Let_def abs_if)

lemma py_get_Inr_mem: "py_get xs i = Inr x \<Longrightarrow> x \<in> set xs"
  by (auto simp: py_get_def py_index_def split: option.splits if_splits)

lemma py_get_Inl: "py_get xs i = Inl e \<Longrightarrow> e = IndexError"
  by (auto simp: py_get_def split: option.splits)

lemma py_get_valid: "py_index (length xs) i = Some j \<Longrightarrow> py_get xs i = Inr (xs ! j)"
  by (simp add: py_get_def)



lemma findCenters_loop_no_zero:
  "\<forall>c \<in> set cs. contourArea c \<noteq> 0 \<Longrightarrow> findCenters_loop cs i inds \<noteq> Inl ZeroDivisionError"
proof (induction inds arbitrary: i)
  case Nil
  then show ?case by simp
next
  case (Cons ind inds)
  show ?case
  proof (cases "py_get cs ind")
    case (Inl e)
    then show ?thesis using py_get_Inl [OF Inl] by simp
  next
    case (Inr cont)
    then have "m00 (cv_moments cont) \<noteq> 0"
      using Cons.prems py_get_Inr_mem [OF Inr] by (simp add: m00_area)
    then show ?thesis
      using Inr Cons.IH [OF Cons.prems, of "Suc i"]
      by (auto simp: Let_def split: sum.splits prod.splits)
  qed
qed

lemma findCenters_loop_total:
  "\<forall>c \<in> set cs. contourArea c \<noteq> 0 \<Longrightarrow>
   \<forall>ind \<in> set inds. py_index (length cs) ind \<noteq> None \<Longrightarrow>
   \<exists>r. findCenters_loop cs i inds = Inr r"
proof (induction inds arbitrary: i)
  case Nil
  then show ?case by simp
next
  case (Cons ind inds)
  from Cons.prems(2) obtain j where j: "py_index (length cs) ind = Some j" by auto
  then have g: "py_get cs ind = Inr (cs ! j)" by (simp add: py_get_def)
  have "cs ! j \<in> set cs" using py_get_Inr_mem [OF g] .
  then have nz: "m00 (cv_moments (cs ! j)) \<noteq> 0" using Cons.prems(1) by (simp add: m00_area)
  obtain r where "findCenters_loop cs (Suc i) inds = Inr r"
    using Cons.IH [of "Suc i"] Cons.prems by auto
  then show ?case using g nz by (cases r) (simp add: Let_def)
qed

lemma findCenters_Inr:
  "findCenters st = Inr st' \<Longrightarrow>
   \<exists>cens szs d. st' = st\<lparr>centers := cens, closeSizes := szs, indDict := d\<rparr>"
  by (auto simp: findCenters_def split: sum.splits prod.splits)

lemma findCenters_no_zero:
  "\<forall>c \<in> set (contours st). contourArea c \<noteq> 0 \<Longrightarrow> findCenters st \<noteq> Inl ZeroDivisionError"
  using findCenters_loop_no_zero [of "contours st" 0 "closeIndsPlus st"]
  by (auto simp: findCenters_def split: sum.splits prod.splits)

lemma findCenters_total:
  "\<forall>c \<in> set (contours st). contourArea c \<noteq> 0 \<Longrightarrow>
   \<forall>ind \<in> set (closeIndsPlus st). py_index (length (contours st)) ind \<noteq> None \<Longrightarrow>
   \<not> isl (findCenters st)"
  using findCenters_loop_total [of "contours st" "closeIndsPlus st" 0]
  by (auto simp: findCenters_def split: sum.splits prod.splits)

lemma cvContour_nonzero:
  "c \<in> set (contours (cvContour res st0)) \<Longrightarrow> contourArea c \<noteq> 0"
proof -
  assume "c \<in> set (contours (cvContour res st0))"
  then have "contourArea c \<in> set (sizes (cvContour res st0))"
    by (simp add: cvContour_sizes)
  then show ?thesis using cvContour_above by fastforce
qed

text \<open>
  C10. In a state whose contour list is the output of \<open>cvContour\<close>, every contour that
  an index can reach (Python indexing, so also a negative index) has a non-zero \<open>m00\<close>:
  \<open>m00\<close> is the contour's area, and the extractor kept areas above 5 only. So
  \<open>findCenters\<close> never raises ZeroDivisionError, whatever the effective set holds, and
  it returns normally when every index of the effective set is in range.
\<close>

theorem centroid_division_safe:
  assumes "contours st = contours (cvContour res st0)"
  shows "(\<forall>ind c. py_get (contours st) ind = Inr c \<longrightarrow> m00 (cv_moments c) \<noteq> 0 \<and> 5 < m00 (cv_moments c))
       \<and> findCenters st \<noteq> Inl ZeroDivisionError
       \<and> ((\<forall>ind \<in> set (closeIndsPlus st). py_index (length (contours st)) ind \<noteq> None)
            \<longrightarrow> \<not> isl (findCenters st))"
proof -
  have nz: "\<forall>c \<in> set (contours st). contourArea c \<noteq> 0"
    using assms cvContour_nonzero by simp
  have big: "\<forall>c \<in> set (contours st). 5 < contourArea c"
  proof
    fix c assume "c \<in> set (contours st)"
    then have "contourArea c \<in> set (sizes (cvContour res st0))"
      using assms by (simp add: cvContour_sizes)
    then show "5 < contourArea c" by (rule cvContour_above)
  qed
  have "\<forall>ind c. py_get (contours st) ind = Inr c \<longrightarrow> m00 (cv_moments c) \<noteq> 0 \<and> 5 < m00 (cv_moments c)"
    using nz big py_get_Inr_mem by (fastforce simp: m00_area)
  then show ?thesis
    using findCenters_no_zero [OF nz] findCenters_total [OF nz] by blast
qed

theorem centroid_division_safe_witness:
  "contours ex_added = contours (cvContour [c_square, c_speck, c_rect] ex_window)
   \<and> closeIndsPlus ex_added = [0, 1]
   \<and> m00 (cv_moments c_rect) = 6 \<and> m00 (cv_moments c_square) = 9
   \<and> findCenters ex_added \<noteq> Inl ZeroDivisionError
   \<and> \<not> isl (findCenters ex_added)"
proof -
  have c: "contours ex_added = contours (cvContour [c_square, c_speck, c_rect] ex_window)"
    by (simp add: ex_added_eq ex_matched_eq ex_selected_eq cvContour_example)
  have p: "closeIndsPlus ex_added = [0, 1]" "length (contours ex_added) = 2"
    by (simp_all add: ex_added_eq ex_matched_eq ex_selected_eq)
  have v: "\<forall>ind \<in> set (closeIndsPlus ex_added). py_index (length (contours ex_added)) ind \<noteq> None"
    by (simp add: p py_index_def)
  show ?thesis
    using centroid_division_safe [OF c] v c p(1) by (simp add: mom_rect mom_square)
qed

subsection \<open>The size filter\<close>








subsection \<open>The shape filter\<close>














subsection \<open>The effective set\<close>

lemma set_np_union1d: "set (np_union1d a b) = set a \<union> set b"
  by (simp add: np_union1d_def)

lemma set_np_setdiff1d: "set (np_setdiff1d a b) = set a - set b"
  by (auto simp: np_setdiff1d_def)

lemma getSimilarContours_sets:
  assumes "getSimilarContours hu st = Inr st'"
  shows "removeConts st' = [] \<and> addConts st' = addConts st
       \<and> closeIndsPlus st' = np_union1d (closeInds st') (addConts st')"
proof -
  from assms obtain st5 where fc: "findCenters st5 = Inr st'"
    and f: "removeConts st5 = []" "addConts st5 = addConts st"
      "closeIndsPlus st5 = np_union1d (closeInds st5) (addConts st5)"
    by (auto simp: getSimilarContours_def Let_def split: sum.splits)
  from findCenters_Inr [OF fc] obtain cens szs d where
    "st' = st5\<lparr>centers := cens, closeSizes := szs, indDict := d\<rparr>" by auto
  then show ?thesis using f by simp
qed

lemma appendContour_sets:
  assumes "closeInds st \<noteq> []" and "appendContour st = Inr st'"
  shows "closeInds st' = closeInds st
       \<and> closeIndsPlus st'
           = np_setdiff1d (np_union1d (closeInds st') (addConts st')) (removeConts st')"
proof -
  from assms obtain st3 where fc: "findCenters st3 = Inr st'"
    and f: "closeInds st3 = closeInds st"
      "closeIndsPlus st3
         = np_setdiff1d (np_union1d (closeInds st3) (addConts st3)) (removeConts st3)"
    by (auto simp: appendContour_def Let_def split: if_splits)
  from findCenters_Inr [OF fc] obtain cens szs d where
    "st' = st3\<lparr>centers := cens, closeSizes := szs, indDict := d\<rparr>" by auto
  then show ?thesis using f by simp
qed

text \<open>
  C5, as the code has it. After every tolerance change (a run of \<open>getSimilarContours\<close>)
  the effective set is \<open>(matched \<union> added) - removed\<close>, the removals are cleared and
  the additions are kept. After every shift-click made while the matched set is not
  empty, the effective set is again \<open>(matched \<union> added) - removed\<close> and the matched set
  is unchanged. Both hold from any state, so after each such operation of any sequence.
\<close>

theorem effective_set_after_each_operation:
  "(getSimilarContours hu st = Inr st' \<longrightarrow>
      set (closeIndsPlus st') = (set (closeInds st') \<union> set (addConts st')) - set (removeConts st')
      \<and> removeConts st' = [] \<and> addConts st' = addConts st)
   \<and> (closeInds su \<noteq> [] \<and> appendContour su = Inr su' \<longrightarrow>
      set (closeIndsPlus su') = (set (closeInds su') \<union> set (addConts su')) - set (removeConts su')
      \<and> closeInds su' = closeInds su)"
  using getSimilarContours_sets [of hu st st'] appendContour_sets [of su su']
  by (auto simp: set_np_union1d set_np_setdiff1d)

theorem effective_set_after_each_operation_witness:
  "getSimilarContours hu_ex ex_selected = Inr ex_matched
   \<and> closeInds ex_matched = [1] \<and> closeIndsPlus ex_matched = [1]
   \<and> addConts ex_matched = [] \<and> removeConts ex_matched = []
   \<and> closeInds (trackMouse 0 ex_matched) \<noteq> []
   \<and> appendContour (trackMouse 0 ex_matched) = Inr ex_added
   \<and> closeInds ex_added = [1] \<and> addConts ex_added = [0] \<and> removeConts ex_added = []
   \<and> closeIndsPlus ex_added = [0, 1]
   \<and> set (closeIndsPlus ex_added)
       = (set (closeInds ex_added) \<union> set (addConts ex_added)) - set (removeConts ex_added)"
proof -
  have run1: "getSimilarContours hu_ex ex_selected = Inr ex_matched"
    by (simp only: ex_matched_run ex_matched_eq)
  have run2: "appendContour (trackMouse 0 ex_matched) = Inr ex_added"
    by (simp only: ex_added_run ex_added_eq)
  have ne: "closeInds (trackMouse 0 ex_matched) \<noteq> []"
    by (simp add: trackMouse_def ex_matched_eq)
  have f: "closeInds ex_matched = [1]" "closeIndsPlus ex_matched = [1]"
    "addConts ex_matched = []" "removeConts ex_matched = []"
    "closeInds ex_added = [1]" "addConts ex_added = [0]" "removeConts ex_added = []"
    "closeIndsPlus ex_added = [0, 1]"
    by (simp_all add: ex_added_eq ex_matched_eq ex_selected_eq ex_window_def init_window_def)
  note t = effective_set_after_each_operation
      [of hu_ex ex_selected ex_matched "trackMouse 0 ex_matched" ex_added]
  have alg: "set (closeIndsPlus ex_added)
       = (set (closeInds ex_added) \<union> set (addConts ex_added)) - set (removeConts ex_added)"
    using t run2 ne by blast
  show ?thesis using run1 run2 ne f alg by blast
qed

text \<open>
  The invariant fails after a shift-click made while the matched set is empty. In the
  example session the shape tolerance 0 empties the matched set and leaves the effective
  set \<open>[0]\<close> (the added rectangle); the next shift-click is redirected to
  \<open>selectContour\<close>, which clears the additions and leaves the effective set as it was.
\<close>

theorem effective_set_counterexample:
  "closeInds ex_zero_tol = [] \<and> addConts ex_zero_tol = [0] \<and> closeIndsPlus ex_zero_tol = [0]
   \<and> appendContour (trackMouse 1 ex_zero_tol) = Inr ex_reselect
   \<and> closeInds ex_reselect = [] \<and> addConts ex_reselect = [] \<and> removeConts ex_reselect = []
   \<and> closeIndsPlus ex_reselect = [0]
   \<and> set (closeIndsPlus ex_reselect)
       \<noteq> (set (closeInds ex_reselect) \<union> set (addConts ex_reselect)) - set (removeConts ex_reselect)"
proof -
  have run: "appendContour (trackMouse 1 ex_zero_tol) = Inr ex_reselect"
    by (simp only: ex_reselect_run ex_reselect_eq)
  have z: "closeInds ex_zero_tol = []" "addConts ex_zero_tol = [0]"
    "closeIndsPlus ex_zero_tol = [0]"
    by (simp_all add: ex_zero_tol_eq ex_added_eq)
  have r: "closeInds ex_reselect = []" "addConts ex_reselect = []"
    "removeConts ex_reselect = []" "closeIndsPlus ex_reselect = [0]"
    unfolding ex_reselect_eq by (simp_all add: ex_zero_tol_eq)
  show ?thesis using run by (simp add: z r)
qed

subsection \<open>Morphology\<close>








subsection \<open>The table writer\<close>

lemma saveColors_no_rgb: "saveColors (st\<lparr>V_saveRGB := False\<rparr>) = Inl UnboundLocalError"
  by (simp add: saveColors_def Let_def)

lemma saveColors_rgb_off: "\<not> V_saveRGB st \<Longrightarrow> saveColors st = Inl UnboundLocalError"
  by (simp add: saveColors_def Let_def)

lemma reorder_zones_saveRGB: "reorder_zones st = Inr st' \<Longrightarrow> V_saveRGB st' = V_saveRGB st"
  by (auto simp: reorder_zones_def Let_def split: sum.splits if_splits)

lemma analyzeContours_rgb_off:
  "\<not> V_saveRGB st \<Longrightarrow> isl (analyzeContours fill st)"
  by (auto simp: analyzeContours_def saveColors_rgb_off dest!: reorder_zones_saveRGB
      split: sum.splits prod.splits)

lemma grayscale_of_Some:
  "grayscale_of [Some r, Some g, Some b] = Some (299 / 1000 * r + 587 / 1000 * g + 114 / 1000 * b)"
  by (simp add: grayscale_of_def np_dot_def RGB2grayscale_weights_def)

lemma std_grayscale_of_Some:
  "std_grayscale_of [Some r, Some g, Some b]
   = Some (sqrt ((299 / 1000 * r)\<^sup>2 + (587 / 1000 * g)\<^sup>2 + (114 / 1000 * b)\<^sup>2))"
proof -
  have "r\<^sup>2 * (299 / 1000)\<^sup>2 + (g\<^sup>2 * (587 / 1000)\<^sup>2 + b\<^sup>2 * (114 / 1000)\<^sup>2)
      = (299 / 1000 * r)\<^sup>2 + (587 / 1000 * g)\<^sup>2 + (114 / 1000 * b)\<^sup>2"
    by (simp add: power2_eq_square)
  then show ?thesis
    by (simp add: std_grayscale_of_def np_dot_def RGB2grayscale_weights_def)
qed

lemma saveColors_Inr:
  assumes "saveColors st = Inr (st', c)"
  shows "V_saveRGB st"
    and "rows c = map (\<lambda>i.
           [Id (i + 1)]
           @ (map Num (avcolorsRGB st ! i) @ map Num (stdsRGB st ! i) @ [Blank])
           @ [Num (grayscale_of (avcolorsRGB st ! i)), Num (std_grayscale_of (stdsRGB st ! i)), Blank]
           @ (if V_saveHSV st
              then map Num (avcolorsHSV st' ! i) @ map Num (stdsHSV st' ! i) @ [Blank] else [])
           @ (if V_saveLAB st
              then map Num (avcolorsLAB st' ! i) @ map Num (stdsLAB st' ! i) @ [Blank] else [])
           @ [Num (Some (maskAreas st' ! i))]) [0..<length (closeIndsPlus st)]"
    and "avcolorsRGB st' = avcolorsRGB st" and "stdsRGB st' = stdsRGB st"
    and "maskAreas st' = maskAreas st" and "closeIndsPlus st' = closeIndsPlus st"
    and "centers st' = centers st" and "refinedMasks st' = refinedMasks st"
    and "refinedCenters st' = refinedCenters st"
    and "contours st' = contours st" and "refiner_data st' = refiner_data st"
    and "im st' = im st" and "imHSV st' = imHSV st" and "imLAB st' = imLAB st"
proof -
  show on: "V_saveRGB st" using assms saveColors_rgb_off by fastforce
  show "rows c = map (\<lambda>i.
           [Id (i + 1)]
           @ (map Num (avcolorsRGB st ! i) @ map Num (stdsRGB st ! i) @ [Blank])
           @ [Num (grayscale_of (avcolorsRGB st ! i)), Num (std_grayscale_of (stdsRGB st ! i)), Blank]
           @ (if V_saveHSV st
              then map Num (avcolorsHSV st' ! i) @ map Num (stdsHSV st' ! i) @ [Blank] else [])
           @ (if V_saveLAB st
              then map Num (avcolorsLAB st' ! i) @ map Num (stdsLAB st' ! i) @ [Blank] else [])
           @ [Num (Some (maskAreas st' ! i))]) [0..<length (closeIndsPlus st)]"
    using assms on by (auto simp: saveColors_def Let_def split: if_splits)
  show "avcolorsRGB st' = avcolorsRGB st" "stdsRGB st' = stdsRGB st"
    "maskAreas st' = maskAreas st" "closeIndsPlus st' = closeIndsPlus st"
    "centers st' = centers st" "refinedMasks st' = refinedMasks st"
    "refinedCenters st' = refinedCenters st"
    "contours st' = contours st" "refiner_data st' = refiner_data st"
    "im st' = im st" "imHSV st' = imHSV st" "imLAB st' = imLAB st"
    using assms on by (auto simp: saveColors_def Let_def split: if_splits)
qed

lemma saveColors_rows:
  assumes "saveColors st = Inr (st', c)" and "i < length (closeIndsPlus st)"
    and "length (avcolorsRGB st ! i) = 3" and "length (stdsRGB st ! i) = 3"
  shows "length (rows c) = length (closeIndsPlus st)"
    and "rows c ! i ! 0 = Id (i + 1)"
    and "take 3 (drop 1 (rows c ! i)) = map Num (avcolorsRGB st ! i)"
    and "take 3 (drop 4 (rows c ! i)) = map Num (stdsRGB st ! i)"
    and "rows c ! i ! 8 = Num (grayscale_of (avcolorsRGB st ! i))"
    and "rows c ! i ! 9 = Num (std_grayscale_of (stdsRGB st ! i))"
proof -
  obtain r0 r1 r2 where r: "avcolorsRGB st ! i = [r0, r1, r2]"
    using assms(3) by (auto simp: length_Suc_conv numeral_3_eq_3)
  obtain s0 s1 s2 where s: "stdsRGB st ! i = [s0, s1, s2]"
    using assms(4) by (auto simp: length_Suc_conv numeral_3_eq_3)
  note rc = saveColors_Inr(2) [OF assms(1)]
  show "length (rows c) = length (closeIndsPlus st)" by (simp add: rc)
  obtain post where row: "rows c ! i = Id (i + 1) # Num r0 # Num r1 # Num r2 # Num s0 # Num s1
      # Num s2 # Blank # Num (grayscale_of [r0, r1, r2]) # Num (std_grayscale_of [s0, s1, s2])
      # Blank # post"
    using assms(2) by (simp add: rc r s)
  show "rows c ! i ! 0 = Id (i + 1)" by (simp add: row)
  show "take 3 (drop 1 (rows c ! i)) = map Num (avcolorsRGB st ! i)" by (simp add: row r)
  show "take 3 (drop 4 (rows c ! i)) = map Num (stdsRGB st ! i)" by (simp add: row s)
  show "rows c ! i ! 8 = Num (grayscale_of (avcolorsRGB st ! i))" by (simp add: row r)
  show "rows c ! i ! 9 = Num (std_grayscale_of (stdsRGB st ! i))" by (simp add: row s)
qed

lemma getAvColor_single:
  "getAvColor [[(b, g, r)]] (Some [[255]])
   = ([Some (real b), Some (real g), Some (real r)], [Some 0, Some 0, Some 0])"
  by (simp add: getAvColor_def included_values_def ma_mean_def ma_std_def channel_def)

subsection \<open>The analysis run\<close>

lemma py_index_Some_iff: "py_index n (int j) = Some k \<longleftrightarrow> j < n \<and> k = j"
  by (auto simp: py_index_def)

lemma py_get_nat: "py_get xs (int j) = (if j < length xs then Inr (xs ! j) else Inl IndexError)"
  by (simp add: py_get_def py_index_def)

lemma py_take_Inr:
  "py_take xs (map int p) = Inr ys \<Longrightarrow> ys = map (\<lambda>i. xs ! i) p \<and> (\<forall>i \<in> set p. i < length xs)"
proof (induction p arbitrary: ys)
  case Nil
  then show ?case by simp
next
  case (Cons a p)
  then show ?case
    by (auto simp: py_get_nat split: sum.splits if_splits)
qed

lemma py_take_total:
  "\<forall>i \<in> set p. i < length xs \<Longrightarrow> py_take xs (map int p) = Inr (map (\<lambda>i. xs ! i) p)"
  by (induction p) (simp_all add: py_get_nat)

lemma np_lexsort_mset: "mset (np_lexsort a b) = mset [0..<length b]"
  by (simp add: np_lexsort_def)

lemma np_lexsort_set: "set (np_lexsort a b) = {0..<length b}"
  by (simp add: np_lexsort_def)

lemma np_lexsort_length: "length (np_lexsort a b) = length b"
  by (simp add: np_lexsort_def)

lemma np_lexsort_sorted:
  "sorted (map (\<lambda>i. (b ! i, a ! i)) (np_lexsort a b))"
  by (simp add: np_lexsort_def)

lemma np_lexsort_stable:
  "filter (\<lambda>i. (b ! i, a ! i) = k) (np_lexsort a b) = filter (\<lambda>i. (b ! i, a ! i) = k) [0..<length b]"
  unfolding np_lexsort_def by (rule sort_key_stable)

lemma sample_window_lengths:
  "length (avRGB (sample_window st m x y w h)) = 3"
  "length (stdRGB (sample_window st m x y w h)) = 3"
  by (simp_all add: sample_window_def Let_def getAvColor_def)

lemma analyze_loop_Inr:
  "analyze_loop fill st i k tot = Inr (smps, tot') \<Longrightarrow>
   length smps = k \<and>
   (\<forall>j<k. \<exists>contMask x y w h. zone_window fill st (i + j) = Inr (contMask, x, y, w, h)
        \<and> smps ! j = sample_window st contMask x y w h)"
proof (induction k arbitrary: i tot smps)
  case 0
  then show ?case by simp
next
  case (Suc k)
  from Suc.prems obtain contMask x y w h smps1 tot1 where
    z: "zone_window fill st i = Inr (contMask, x, y, w, h)"
    and rest: "analyze_loop fill st (Suc i) k tot1 = Inr (smps1, tot')"
    and sm: "smps = sample_window st contMask x y w h # smps1"
    by (auto simp: Let_def split: sum.splits prod.splits)
  from Suc.IH [OF rest] have len: "length smps1 = k"
    and all: "\<forall>j<k. \<exists>contMask x y w h. zone_window fill st (Suc i + j) = Inr (contMask, x, y, w, h)
        \<and> smps1 ! j = sample_window st contMask x y w h" by simp_all
  have "\<exists>contMask x y w h. zone_window fill st (i + j) = Inr (contMask, x, y, w, h)
        \<and> smps ! j = sample_window st contMask x y w h" if "j < Suc k" for j
  proof (cases j)
    case 0
    then show ?thesis using z sm by simp
  next
    case (Suc j')
    then have "j' < k" using that by simp
    then show ?thesis using all Suc sm by simp
  qed
  then show ?case using len sm by simp
qed

lemma analyzeContours_Inr:
  assumes "analyzeContours fill st = Inr (st', c)"
  shows "\<exists>st1 smps tot. reorder_zones st = Inr st1
     \<and> analyze_loop fill st1 0 (length (closeIndsPlus st1)) (totalMask st1) = Inr (smps, tot)
     \<and> saveColors (st1\<lparr>avcolorsRGB := map avRGB smps, avcolorsHSV := map avHSV smps,
                 avcolorsLAB := map avLAB smps, stdsRGB := map stdRGB smps,
                 stdsHSV := map stdHSV smps, stdsLAB := map stdLAB smps,
                 maskAreas := map maskArea smps, totalMask := tot\<rparr>) = Inr (st', c)"
  using assms by (auto simp: analyzeContours_def split: sum.splits prod.splits)

lemma reorder_zones_Inr:
  assumes "reorder_zones st = Inr st1"
  defines "p \<equiv> np_lexsort (map fst (centers st)) (map snd (centers st))"
  shows "closeIndsPlus st1 = map (\<lambda>i. closeIndsPlus st ! i) p"
    and "centers st1 = map (\<lambda>i. centers st ! i) p"
    and "refinedMasks st \<noteq> [] \<Longrightarrow> refinedMasks st1 = map (\<lambda>i. refinedMasks st ! i) p"
    and "refinedMasks st \<noteq> [] \<Longrightarrow> refinedCenters st1 = map (\<lambda>i. refinedCenters st ! i) p"
    and "refinedMasks st = [] \<Longrightarrow> refinedMasks st1 = [] \<and> refinedCenters st1 = refinedCenters st"
    and "contours st1 = contours st" and "refiner_data st1 = refiner_data st"
    and "im st1 = im st" and "imHSV st1 = imHSV st" and "imLAB st1 = imLAB st"
    and "V_saveRGB st1 = V_saveRGB st"
    and "\<forall>i \<in> set p. i < length (closeIndsPlus st)"
proof -
  from assms(1) obtain cip where cip: "py_take (closeIndsPlus st) (map int p) = Inr cip"
    by (auto simp: reorder_zones_def Let_def p_def split: sum.splits)
  note c = py_take_Inr [OF cip]
  show "\<forall>i \<in> set p. i < length (closeIndsPlus st)" using c by simp
  show "closeIndsPlus st1 = map (\<lambda>i. closeIndsPlus st ! i) p"
    using assms(1) cip c by (auto simp: reorder_zones_def Let_def p_def split: sum.splits if_splits)
  show "centers st1 = map (\<lambda>i. centers st ! i) p"
    using assms(1) cip by (auto simp: reorder_zones_def Let_def p_def split: sum.splits if_splits)
  show "refinedMasks st \<noteq> [] \<Longrightarrow> refinedMasks st1 = map (\<lambda>i. refinedMasks st ! i) p"
    using assms(1) cip
    by (auto simp: reorder_zones_def Let_def p_def split: sum.splits if_splits dest!: py_take_Inr)
  show "refinedMasks st \<noteq> [] \<Longrightarrow> refinedCenters st1 = map (\<lambda>i. refinedCenters st ! i) p"
    using assms(1) cip
    by (auto simp: reorder_zones_def Let_def p_def split: sum.splits if_splits dest!: py_take_Inr)
  show "refinedMasks st = [] \<Longrightarrow> refinedMasks st1 = [] \<and> refinedCenters st1 = refinedCenters st"
    using assms(1) cip by (auto simp: reorder_zones_def Let_def p_def split: sum.splits if_splits)
  show "contours st1 = contours st" "refiner_data st1 = refiner_data st"
    "im st1 = im st" "imHSV st1 = imHSV st" "imLAB st1 = imLAB st" "V_saveRGB st1 = V_saveRGB st"
    using assms(1) by (auto simp: reorder_zones_def Let_def split: sum.splits if_splits)
qed

lemma fold_max_mem: "fold max ys (x::real) \<in> set (x # ys)"
proof (induction ys arbitrary: x)
  case Nil
  then show ?case by simp
next
  case (Cons y ys)
  have ih: "fold max ys (max y x) \<in> set (max y x # ys)" by (rule Cons.IH)
  have "max y x = x \<or> max y x = y" by (auto simp: max_def)
  then have "set (max y x # ys) \<subseteq> set (x # y # ys)" by auto
  then have "fold max ys (max y x) \<in> set (x # y # ys)" using ih by blast
  then show ?case by (simp only: fold_simps o_apply)
qed

lemma takeWhile_stops: "\<exists>v \<in> set xs. \<not> P v \<Longrightarrow> length (takeWhile P xs) < length xs"
  by (induction xs) auto

lemma np_argmax_total: "xs \<noteq> [] \<Longrightarrow> \<exists>k. np_argmax xs = Inr k \<and> k < length xs"
proof (cases xs)
  case Nil
  then show "xs \<noteq> [] \<Longrightarrow> ?thesis" by simp
next
  case (Cons x ys)
  have "\<exists>v \<in> set (x # ys). \<not> v \<noteq> fold max ys x" using fold_max_mem [of ys x] by blast
  then have "length (takeWhile (\<lambda>v. v \<noteq> fold max ys x) (x # ys)) < length (x # ys)"
    by (rule takeWhile_stops)
  then show ?thesis by (simp add: np_argmax_def Cons)
qed

lemma np_argmax_Inl: "np_argmax xs = Inl e \<Longrightarrow> xs = [] \<and> e = ValueError"
  by (auto simp: np_argmax_def split: list.splits)

lemma zone_window_fields:
  "closeIndsPlus a = closeIndsPlus b \<Longrightarrow> contours a = contours b \<Longrightarrow>
   refinedMasks a = refinedMasks b \<Longrightarrow> refinedCenters a = refinedCenters b \<Longrightarrow>
   refiner_data a = refiner_data b \<Longrightarrow> zone_window fill a j = zone_window fill b j"
  unfolding zone_window_def by (simp cong: sum.case_cong if_cong)

lemma sample_window_fields:
  "im a = im b \<Longrightarrow> imHSV a = imHSV b \<Longrightarrow> imLAB a = imLAB b \<Longrightarrow>
   sample_window a m x y w h = sample_window b m x y w h"
  by (simp add: sample_window_def)

text \<open>What a completed run of \<open>analyzeContours\<close> leaves in the state and in the table.\<close>

lemma analyzeContours_result:
  assumes run: "analyzeContours fill st = Inr (st', c)"
  defines "p \<equiv> np_lexsort (map fst (centers st)) (map snd (centers st))"
  shows "closeIndsPlus st' = map (\<lambda>i. closeIndsPlus st ! i) p"
    and "centers st' = map (\<lambda>i. centers st ! i) p"
    and "refinedMasks st \<noteq> [] \<Longrightarrow> refinedMasks st' = map (\<lambda>i. refinedMasks st ! i) p"
    and "refinedMasks st \<noteq> [] \<Longrightarrow> refinedCenters st' = map (\<lambda>i. refinedCenters st ! i) p"
    and "length (rows c) = length p"
    and "\<forall>j<length p. \<exists>contMask x y w h.
           zone_window fill st' j = Inr (contMask, x, y, w, h)
           \<and> avcolorsRGB st' ! j = avRGB (sample_window st' contMask x y w h)
           \<and> stdsRGB st' ! j = stdRGB (sample_window st' contMask x y w h)
           \<and> maskAreas st' ! j = maskArea (sample_window st' contMask x y w h)"
    and "\<forall>j<length p. rows c ! j ! 0 = Id (j + 1)
           \<and> take 3 (drop 1 (rows c ! j)) = map Num (avcolorsRGB st' ! j)
           \<and> take 3 (drop 4 (rows c ! j)) = map Num (stdsRGB st' ! j)
           \<and> rows c ! j ! 8 = Num (grayscale_of (avcolorsRGB st' ! j))
           \<and> rows c ! j ! 9 = Num (std_grayscale_of (stdsRGB st' ! j))"
    and "V_saveRGB st"
    and "contours st' = contours st" and "refiner_data st' = refiner_data st"
    and "im st' = im st \<and> imHSV st' = imHSV st \<and> imLAB st' = imLAB st"
    and "refinedMasks st = [] \<Longrightarrow> refinedMasks st' = []"
proof -
  from analyzeContours_Inr [OF run] obtain st1 smps tot where
    ro: "reorder_zones st = Inr st1"
    and lo: "analyze_loop fill st1 0 (length (closeIndsPlus st1)) (totalMask st1) = Inr (smps, tot)"
    and sa: "saveColors (st1\<lparr>avcolorsRGB := map avRGB smps, avcolorsHSV := map avHSV smps,
                 avcolorsLAB := map avLAB smps, stdsRGB := map stdRGB smps,
                 stdsHSV := map stdHSV smps, stdsLAB := map stdLAB smps,
                 maskAreas := map maskArea smps, totalMask := tot\<rparr>) = Inr (st', c)"
    by blast
  let ?st2 = "st1\<lparr>avcolorsRGB := map avRGB smps, avcolorsHSV := map avHSV smps,
                 avcolorsLAB := map avLAB smps, stdsRGB := map stdRGB smps,
                 stdsHSV := map stdHSV smps, stdsLAB := map stdLAB smps,
                 maskAreas := map maskArea smps, totalMask := tot\<rparr>"
  note r = reorder_zones_Inr [OF ro, folded p_def]
  note s = saveColors_Inr [OF sa]
  have n: "length (closeIndsPlus st1) = length p" using r(1) by simp
  from analyze_loop_Inr [OF lo] have len: "length smps = length p"
    and zones: "\<forall>j<length p. \<exists>contMask x y w h.
        zone_window fill st1 j = Inr (contMask, x, y, w, h)
        \<and> smps ! j = sample_window st1 contMask x y w h"
    by (simp_all add: n)
  show "V_saveRGB st" using s(1) r(11) by simp
  show "contours st' = contours st" using s(10) r(6) by simp
  show "refiner_data st' = refiner_data st" using s(11) r(7) by simp
  show "im st' = im st \<and> imHSV st' = imHSV st \<and> imLAB st' = imLAB st"
    using s(12,13,14) r(8,9,10) by simp
  show "refinedMasks st = [] \<Longrightarrow> refinedMasks st' = []" using s(8) r(5) by simp
  show "closeIndsPlus st' = map (\<lambda>i. closeIndsPlus st ! i) p" using s(6) r(1) by simp
  show "centers st' = map (\<lambda>i. centers st ! i) p" using s(7) r(2) by simp
  show "refinedMasks st \<noteq> [] \<Longrightarrow> refinedMasks st' = map (\<lambda>i. refinedMasks st ! i) p"
    using s(8) r(3) by simp
  show "refinedMasks st \<noteq> [] \<Longrightarrow> refinedCenters st' = map (\<lambda>i. refinedCenters st ! i) p"
    using s(9) r(4) by simp
  have rc: "length (rows c) = length p" using s(2) n by simp
  show "length (rows c) = length p" by (rule rc)
  have zw: "zone_window fill st' j = zone_window fill st1 j" for j
    using s by (intro zone_window_fields) simp_all
  have sw: "sample_window st' m x y w h = sample_window st1 m x y w h" for m x y w h
    using s by (intro sample_window_fields) simp_all
  have av: "avcolorsRGB st' = map avRGB smps" "stdsRGB st' = map stdRGB smps"
    "maskAreas st' = map maskArea smps"
    using s(3,4,5) by simp_all
  show "\<forall>j<length p. \<exists>contMask x y w h.
           zone_window fill st' j = Inr (contMask, x, y, w, h)
           \<and> avcolorsRGB st' ! j = avRGB (sample_window st' contMask x y w h)
           \<and> stdsRGB st' ! j = stdRGB (sample_window st' contMask x y w h)
           \<and> maskAreas st' ! j = maskArea (sample_window st' contMask x y w h)"
  proof (intro allI impI)
    fix j assume j: "j < length p"
    with zones obtain contMask x y w h where
      z: "zone_window fill st1 j = Inr (contMask, x, y, w, h)"
      and sj: "smps ! j = sample_window st1 contMask x y w h" by blast
    show "\<exists>contMask x y w h.
           zone_window fill st' j = Inr (contMask, x, y, w, h)
           \<and> avcolorsRGB st' ! j = avRGB (sample_window st' contMask x y w h)
           \<and> stdsRGB st' ! j = stdRGB (sample_window st' contMask x y w h)
           \<and> maskAreas st' ! j = maskArea (sample_window st' contMask x y w h)"
      using z sj j len by (intro exI [of _ contMask] exI [of _ x] exI [of _ y] exI [of _ w] exI [of _ h])
        (simp add: zw sw av)
  qed
  show "\<forall>j<length p. rows c ! j ! 0 = Id (j + 1)
           \<and> take 3 (drop 1 (rows c ! j)) = map Num (avcolorsRGB st' ! j)
           \<and> take 3 (drop 4 (rows c ! j)) = map Num (stdsRGB st' ! j)
           \<and> rows c ! j ! 8 = Num (grayscale_of (avcolorsRGB st' ! j))
           \<and> rows c ! j ! 9 = Num (std_grayscale_of (stdsRGB st' ! j))"
  proof (intro allI impI)
    fix j assume j: "j < length p"
    with zones obtain contMask x y w h where
      sj: "smps ! j = sample_window st1 contMask x y w h" by blast
    have j2: "j < length (closeIndsPlus ?st2)" using j n by simp
    have l1: "length (avcolorsRGB ?st2 ! j) = 3" using j len sj
      by (simp add: sample_window_lengths)
    have l2: "length (stdsRGB ?st2 ! j) = 3" using j len sj
      by (simp add: sample_window_lengths)
    note rw = saveColors_rows [OF sa j2 l1 l2]
    have e: "avcolorsRGB ?st2 = avcolorsRGB st'" "stdsRGB ?st2 = stdsRGB st'"
      using s(3,4) by simp_all
    show "rows c ! j ! 0 = Id (j + 1)
           \<and> take 3 (drop 1 (rows c ! j)) = map Num (avcolorsRGB st' ! j)
           \<and> take 3 (drop 4 (rows c ! j)) = map Num (stdsRGB st' ! j)
           \<and> rows c ! j ! 8 = Num (grayscale_of (avcolorsRGB st' ! j))
           \<and> rows c ! j ! 9 = Num (std_grayscale_of (stdsRGB st' ! j))"
      using rw(2-6) unfolding e by blast
  qed
qed

lemma py_get_0_total: "xs \<noteq> [] \<Longrightarrow> py_get xs 0 = Inr (xs ! 0)"
  by (simp add: py_get_def py_index_def)

lemma py_get_last_total: "xs \<noteq> [] \<Longrightarrow> py_get xs (- 1) = Inr (xs ! (length xs - 1))"
proof -
  assume "xs \<noteq> []"
  then have "0 < length xs" by simp
  then have "nat (int (length xs) + - 1) = length xs - 1" by linarith
  then have "py_index (length xs) (- 1) = Some (length xs - 1)"
    using \<open>0 < length xs\<close> by (simp add: py_index_def Suc_le_eq)
  then show ?thesis by (simp add: py_get_def)
qed

lemma reorder_zones_total:
  assumes "length (centers st) = length (closeIndsPlus st)"
    and "refinedMasks st = [] \<or> length (refinedMasks st) = length (closeIndsPlus st)
          \<and> length (refinedCenters st) = length (closeIndsPlus st)"
  shows "\<exists>st1. reorder_zones st = Inr st1"
proof -
  let ?p = "np_lexsort (map fst (centers st)) (map snd (centers st))"
  have p: "\<forall>i \<in> set ?p. i < length (closeIndsPlus st)"
    using assms(1) by (simp add: np_lexsort_set)
  have t1: "py_take (closeIndsPlus st) (map int ?p) = Inr (map (\<lambda>i. closeIndsPlus st ! i) ?p)"
    using p by (rule py_take_total)
  show ?thesis
  proof (cases "refinedMasks st = []")
    case True
    then show ?thesis by (simp add: reorder_zones_def Let_def t1)
  next
    case False
    then have l: "length (refinedMasks st) = length (closeIndsPlus st)"
      "length (refinedCenters st) = length (closeIndsPlus st)" using assms(2) by simp_all
    have t2: "py_take (refinedMasks st) (map int ?p) = Inr (map (\<lambda>i. refinedMasks st ! i) ?p)"
      using p l by (intro py_take_total) simp
    have t3: "py_take (refinedCenters st) (map int ?p) = Inr (map (\<lambda>i. refinedCenters st ! i) ?p)"
      using p l by (intro py_take_total) simp
    show ?thesis using False by (simp add: reorder_zones_def Let_def t1 t2 t3)
  qed
qed

lemma zone_window_total:
  assumes "j < length (closeIndsPlus st)"
    and "\<forall>ind \<in> set (closeIndsPlus st). py_index (length (contours st)) ind \<noteq> None"
    and "refinedMasks st = [] \<or> j < length (refinedMasks st) \<and> j < length (refinedCenters st)
          \<and> refiner_data st \<noteq> []"
  shows "\<exists>z. zone_window fill st j = Inr z"
proof -
  have g1: "py_get (closeIndsPlus st) (int j) = Inr (closeIndsPlus st ! j)"
    using assms(1) by (simp add: py_get_nat)
  have "closeIndsPlus st ! j \<in> set (closeIndsPlus st)" using assms(1) by simp
  then obtain k where "py_index (length (contours st)) (closeIndsPlus st ! j) = Some k"
    using assms(2) by fastforce
  then have g2: "py_get (contours st) (closeIndsPlus st ! j) = Inr (contours st ! k)"
    by (rule py_get_valid)
  show ?thesis
  proof (cases "refinedMasks st = []")
    case True
    obtain bx bys bw bh where "boundingRect (contours st ! k) = (bx, bys, bw, bh)"
      by (cases "boundingRect (contours st ! k)") auto
    then show ?thesis using True by (simp add: zone_window_def g1 g2)
  next
    case False
    then have l: "j < length (refinedMasks st)" "j < length (refinedCenters st)"
      "refiner_data st \<noteq> []" using assms(3) by simp_all
    show ?thesis
      using False l
      by (simp add: zone_window_def g1 g2 py_get_0_total py_get_last_total
          py_get_nat [of "refinedMasks st"] py_get_nat [of "refinedCenters st"])
  qed
qed

lemma analyze_loop_total:
  "(\<forall>j. i \<le> j \<and> j < i + k \<longrightarrow> (\<exists>z. zone_window fill st j = Inr z)) \<Longrightarrow>
   \<exists>r. analyze_loop fill st i k tot = Inr r"
proof (induction k arbitrary: i tot)
  case 0
  then show ?case by simp
next
  case (Suc k)
  from Suc.prems obtain z where z: "zone_window fill st i = Inr z" by force
  obtain contMask x y w h where zz: "z = (contMask, x, y, w, h)" by (cases z) auto
  have "\<forall>j. Suc i \<le> j \<and> j < Suc i + k \<longrightarrow> (\<exists>z. zone_window fill st j = Inr z)"
    using Suc.prems by simp
  from Suc.IH [OF this] obtain r where
    "analyze_loop fill st (Suc i) k
       (if length (refinedMasks st) = 0 then bitwise_or_mask contMask tot else tot) = Inr r"
    by blast
  then show ?case using z zz by (cases r) (simp add: Let_def)
qed

lemma saveColors_total: "V_saveRGB st \<Longrightarrow> \<exists>st' c. saveColors st = Inr (st', c)"
  by (simp add: saveColors_def Let_def)

lemma analyzeContours_total:
  assumes "analysis_ready st"
  shows "\<exists>st' c. analyzeContours fill st = Inr (st', c)"
proof -
  note a = assms [unfolded analysis_ready_def list_all_iff]
  from a have ne: "closeSizes st \<noteq> []" by auto
  from np_argmax_total [OF ne] obtain k where k: "np_argmax (closeSizes st) = Inr k"
    "k < length (closeSizes st)" by blast
  have g1: "py_get (closeIndsPlus st) (int k) = Inr (closeIndsPlus st ! k)"
    using k(2) a by (simp add: py_get_nat)
  have "closeIndsPlus st ! k \<in> set (closeIndsPlus st)" using k(2) a by simp
  then obtain m where "py_index (length (contours st)) (closeIndsPlus st ! k) = Some m"
    using a by fastforce
  then have g2: "py_get (contours st) (closeIndsPlus st ! k) = Inr (contours st ! m)"
    by (rule py_get_valid)
  obtain st1 where ro: "reorder_zones st = Inr st1"
    using reorder_zones_total [of st] a by auto
  let ?p = "np_lexsort (map fst (centers st)) (map snd (centers st))"
  note r = reorder_zones_Inr [OF ro]
  have n: "length ?p = length (closeIndsPlus st)" using a by (simp add: np_lexsort_length)
  have sp: "set ?p = {0..<length (closeIndsPlus st)}" using a by (simp add: np_lexsort_set)
  have set1: "set (closeIndsPlus st1) = set (closeIndsPlus st)"
  proof -
    have "set (closeIndsPlus st1) = (\<lambda>i. closeIndsPlus st ! i) ` {0..<length (closeIndsPlus st)}"
      using r(1) sp by simp
    also have "\<dots> = set (closeIndsPlus st)"
      by (metis list.set_map map_nth set_upt)
    finally show ?thesis .
  qed
  have len1: "length (closeIndsPlus st1) = length (closeIndsPlus st)" using r(1) n by simp
  have valid1: "\<forall>ind \<in> set (closeIndsPlus st1). py_index (length (contours st1)) ind \<noteq> None"
    using a set1 r(6) by simp
  have ref1: "refinedMasks st1 = [] \<or>
      j < length (refinedMasks st1) \<and> j < length (refinedCenters st1) \<and> refiner_data st1 \<noteq> []"
    if "j < length (closeIndsPlus st1)" for j
  proof (cases "refinedMasks st = []")
    case True
    then show ?thesis using r(5) by simp
  next
    case False
    then show ?thesis using r(3,4,7) a n len1 that by auto
  qed
  have "\<forall>j. 0 \<le> j \<and> j < 0 + length (closeIndsPlus st1) \<longrightarrow> (\<exists>z. zone_window fill st1 j = Inr z)"
    using zone_window_total [OF _ valid1 ref1] by simp
  from analyze_loop_total [OF this] obtain res where
    lo: "analyze_loop fill st1 0 (length (closeIndsPlus st1)) (totalMask st1) = Inr res" by blast
  obtain smps tot where res: "res = (smps, tot)" by (cases res)
  have on: "V_saveRGB (st1\<lparr>avcolorsRGB := map avRGB smps, avcolorsHSV := map avHSV smps,
                 avcolorsLAB := map avLAB smps, stdsRGB := map stdRGB smps,
                 stdsHSV := map stdHSV smps, stdsLAB := map stdLAB smps,
                 maskAreas := map maskArea smps, totalMask := tot\<rparr>)"
    using r(11) a by simp
  from saveColors_total [OF on] obtain st' c where
    "saveColors (st1\<lparr>avcolorsRGB := map avRGB smps, avcolorsHSV := map avHSV smps,
                 avcolorsLAB := map avLAB smps, stdsRGB := map stdRGB smps,
                 stdsHSV := map stdHSV smps, stdsLAB := map stdLAB smps,
                 maskAreas := map maskArea smps, totalMask := tot\<rparr>) = Inr (st', c)" by blast
  then show ?thesis using k(1) g1 g2 ro lo res by (simp add: analyzeContours_def)
qed




subsection \<open>The example runs\<close>

lemma ex_added_fields:
  "closeIndsPlus ex_added = [0, 1]" "closeSizes ex_added = [6, 9]"
  "centers ex_added = [(11, 6), (6, 6)]" "contours ex_added = [c_rect, c_square]"
  "refinedMasks ex_added = []" "V_saveRGB ex_added"
  "im ex_added = ex_im" "imHSV ex_added = ex_hsv" "imLAB ex_added = ex_lab"
  by (simp_all add: ex_added_eq ex_matched_eq ex_selected_eq ex_window_def init_window_def)

lemma ex_added_ready: "analysis_ready ex_added"
  by (simp add: analysis_ready_def ex_added_fields py_index_def)




lemma lexsort_ex: "np_lexsort [11, 6] [6, 6] = [1, 0]"
  by (simp add: np_lexsort_def upt_2)

lemma lexsort_spec: "np_lexsort [50, 10, 30] [10, 10, 5] = [2, 1, 0]"
  by (simp add: np_lexsort_def upt_3)

lemma bounding_square: "boundingRect c_square = (5, 5, 4, 4)"
  by (simp add: boundingRect_def c_square_def)

lemma bounding_rect: "boundingRect c_rect = (10, 5, 4, 3)"
  by (simp add: boundingRect_def c_rect_def)

lemma crop_im_square: "crop ex_im 5 4 5 4 = replicate 4 (replicate 4 (10, 20, 30))"
  by code_simp

lemma crop_fill_square: "crop (ex_fill c_square) 5 4 5 4 = replicate 4 (replicate 4 255)"
  by code_simp


subsection \<open>Grayscale columns\<close>

lemma ex_run_eq: "analyzeContours ex_fill ex_added = Inr ex_run"
  using analyzeContours_total [OF ex_added_ready, of ex_fill] by (auto simp: ex_run_def)


text \<open>
  C1 fails on the code. With the RGB toggle off \<open>saveColors\<close> never assigns \<open>rgb\<close> and
  \<open>std_rgb\<close>, the grayscale lines raise UnboundLocalError, and no run of
  \<open>analyzeContours\<close> emits a table, whatever the state and the rasteriser. On the
  example session the run emits a table with the toggle on and fails with it off.
\<close>

theorem grayscale_needs_rgb_toggle:
  "saveColors (st\<lparr>V_saveRGB := False\<rparr>) = Inl UnboundLocalError
   \<and> isl (analyzeContours fill (st\<lparr>V_saveRGB := False\<rparr>))
   \<and> \<not> isl (analyzeContours ex_fill ex_added)
   \<and> isl (analyzeContours ex_fill (ex_added\<lparr>V_saveRGB := False\<rparr>))"
proof -
  have a: "saveColors (st\<lparr>V_saveRGB := False\<rparr>) = Inl UnboundLocalError"
    by (rule saveColors_no_rgb)
  have b: "isl (analyzeContours fill (st\<lparr>V_saveRGB := False\<rparr>))" for fill st
    by (rule analyzeContours_rgb_off) simp
  have c: "\<not> isl (analyzeContours ex_fill ex_added)" by (simp add: ex_run_eq)
  show ?thesis using a b c by blast
qed

text \<open>
  C9. In every table that \<open>analyzeContours\<close> emits, the Gray cell of each row is
  \<open>grayscale_of\<close> of that zone's mean RGB, which is \<open>0.299 R + 0.587 G + 0.114 B\<close>
  when the means are numbers, and the std Gray cell is \<open>std_grayscale_of\<close> of the
  zone's RGB standard deviations, which is the square root of the sum of the squared
  weighted deviations. The means and deviations are those of the zone's window, and the
  R, G, B and std columns of the row show the same numbers. For a window of one included
  pixel the Gray value is the weighted sum of that pixel's channels.
\<close>

theorem gray_columns:
  assumes "analyzeContours fill st = Inr (st', c)" and "j < length (rows c)"
  shows "rows c ! j ! 8 = Num (grayscale_of (avcolorsRGB st' ! j))
       \<and> rows c ! j ! 9 = Num (std_grayscale_of (stdsRGB st' ! j))
       \<and> take 3 (drop 1 (rows c ! j)) = map Num (avcolorsRGB st' ! j)
       \<and> take 3 (drop 4 (rows c ! j)) = map Num (stdsRGB st' ! j)
       \<and> (\<exists>contMask x y w h.
             zone_window fill st' j = Inr (contMask, x, y, w, h)
             \<and> avcolorsRGB st' ! j = avRGB (sample_window st' contMask x y w h)
             \<and> stdsRGB st' ! j = stdRGB (sample_window st' contMask x y w h))
       \<and> (\<forall>R G B. avcolorsRGB st' ! j = [Some R, Some G, Some B] \<longrightarrow>
             grayscale_of (avcolorsRGB st' ! j)
               = Some (299 / 1000 * R + 587 / 1000 * G + 114 / 1000 * B))
       \<and> (\<forall>sR sG sB. stdsRGB st' ! j = [Some sR, Some sG, Some sB] \<longrightarrow>
             std_grayscale_of (stdsRGB st' ! j)
               = Some (sqrt ((299 / 1000 * sR)\<^sup>2 + (587 / 1000 * sG)\<^sup>2 + (114 / 1000 * sB)\<^sup>2)))
       \<and> grayscale_of (rev (fst (getAvColor [[(b, g, r)]] (Some [[255]]))))
             = Some (299 / 1000 * real r + 587 / 1000 * real g + 114 / 1000 * real b)"
proof -
  note res = analyzeContours_result [OF assms(1)]
  have j: "j < length (np_lexsort (map fst (centers st)) (map snd (centers st)))"
    using assms(2) res(5) by simp
  have cells: "rows c ! j ! 8 = Num (grayscale_of (avcolorsRGB st' ! j))
       \<and> rows c ! j ! 9 = Num (std_grayscale_of (stdsRGB st' ! j))
       \<and> take 3 (drop 1 (rows c ! j)) = map Num (avcolorsRGB st' ! j)
       \<and> take 3 (drop 4 (rows c ! j)) = map Num (stdsRGB st' ! j)"
    using res(7) j by blast
  have zone: "\<exists>contMask x y w h.
             zone_window fill st' j = Inr (contMask, x, y, w, h)
             \<and> avcolorsRGB st' ! j = avRGB (sample_window st' contMask x y w h)
             \<and> stdsRGB st' ! j = stdRGB (sample_window st' contMask x y w h)"
    using res(6) j by blast
  have single: "grayscale_of (rev (fst (getAvColor [[(b, g, r)]] (Some [[255]]))))
             = Some (299 / 1000 * real r + 587 / 1000 * real g + 114 / 1000 * real b)"
    by (simp add: getAvColor_single grayscale_of_Some)
  show ?thesis
    using cells zone single by (auto simp: grayscale_of_Some std_grayscale_of_Some)
qed

lemma concat_replicate_replicate: "concat (replicate a (replicate b p)) = replicate (a * b) p"
  by (induction a) (simp_all add: replicate_add)

lemma included_values_uniform:
  "included_values (replicate a (replicate b p)) (replicate a (replicate b 255)) k
   = replicate (a * b) (real (channel k p))"
  by (simp add: included_values_def concat_replicate_replicate zip_replicate)

lemma ma_mean_uniform: "0 < n \<Longrightarrow> ma_mean (replicate n v) = Some v"
  by (simp add: ma_mean_def sum_list_replicate)

lemma ma_std_uniform: "0 < n \<Longrightarrow> ma_std (replicate n v) = Some 0"
  by (simp add: ma_std_def sum_list_replicate Let_def)

lemma ex_run_pair: "analyzeContours ex_fill ex_added = Inr (fst ex_run, snd ex_run)"
  by (simp add: ex_run_eq)

lemma ex_run_zone0:
  "avcolorsRGB (fst ex_run) ! 0 = [Some 30, Some 20, Some 10]"
  "stdsRGB (fst ex_run) ! 0 = [Some 0, Some 0, Some 0]"
  "length (rows (snd ex_run)) = 2"
proof -
  note res = analyzeContours_result [OF ex_run_pair]
  have p: "np_lexsort (map fst (centers ex_added)) (map snd (centers ex_added)) = [1, 0]"
    by (simp add: ex_added_fields lexsort_ex)
  have cip: "closeIndsPlus (fst ex_run) = [1, 0]"
    using res(1) [unfolded p] by (simp add: ex_added_fields)
  have cs: "contours (fst ex_run) = [c_rect, c_square]" using res(9) by (simp add: ex_added_fields)
  have rm: "refinedMasks (fst ex_run) = []" using res(12) by (simp add: ex_added_fields)
  have z: "zone_window ex_fill (fst ex_run) 0 = Inr (ex_fill c_square, 5, 5, 4, 4)"
    by (simp add: zone_window_def cip cs rm py_get_def py_index_def bounding_square)
  have ims: "im (fst ex_run) = ex_im" using res(11) by (simp add: ex_added_fields)
  have smp: "avRGB (sample_window (fst ex_run) (ex_fill c_square) 5 5 4 4) = [Some 30, Some 20, Some 10]"
    "stdRGB (sample_window (fst ex_run) (ex_fill c_square) 5 5 4 4) = [Some 0, Some 0, Some 0]"
    by (simp_all add: sample_window_def Let_def ims crop_im_square crop_fill_square getAvColor_def
        included_values_uniform ma_mean_uniform ma_std_uniform channel_def)
  from res(6) [unfolded p, rule_format, of 0] have "\<exists>contMask x y w h.
           zone_window ex_fill (fst ex_run) 0 = Inr (contMask, x, y, w, h)
           \<and> avcolorsRGB (fst ex_run) ! 0 = avRGB (sample_window (fst ex_run) contMask x y w h)
           \<and> stdsRGB (fst ex_run) ! 0 = stdRGB (sample_window (fst ex_run) contMask x y w h)
           \<and> maskAreas (fst ex_run) ! 0 = maskArea (sample_window (fst ex_run) contMask x y w h)"
    by simp
  then show "avcolorsRGB (fst ex_run) ! 0 = [Some 30, Some 20, Some 10]"
    "stdsRGB (fst ex_run) ! 0 = [Some 0, Some 0, Some 0]"
    using z smp by auto
  show "length (rows (snd ex_run)) = 2" using res(5) [unfolded p] by simp
qed

theorem gray_columns_witness:
  "analyzeContours ex_fill ex_added = Inr (fst ex_run, snd ex_run)
   \<and> 0 < length (rows (snd ex_run))
   \<and> avcolorsRGB (fst ex_run) ! 0 = [Some 30, Some 20, Some 10]
   \<and> stdsRGB (fst ex_run) ! 0 = [Some 0, Some 0, Some 0]
   \<and> rows (snd ex_run) ! 0 ! 8 = Num (Some (437 / 20))
   \<and> rows (snd ex_run) ! 0 ! 9 = Num (Some 0)
   \<and> take 3 (drop 1 (rows (snd ex_run) ! 0)) = [Num (Some 30), Num (Some 20), Num (Some 10)]"
proof -
  have len: "0 < length (rows (snd ex_run))" by (simp add: ex_run_zone0)
  note t = gray_columns [OF ex_run_pair len]
  have g: "rows (snd ex_run) ! 0 ! 8 = Num (Some (437 / 20))"
    using t by (simp add: ex_run_zone0 grayscale_of_Some)
  have sg: "rows (snd ex_run) ! 0 ! 9 = Num (Some 0)"
    using t by (simp add: ex_run_zone0 std_grayscale_of_Some)
  have rgb: "take 3 (drop 1 (rows (snd ex_run) ! 0)) = [Num (Some 30), Num (Some 20), Num (Some 10)]"
    using t by (simp add: ex_run_zone0)
  show ?thesis using ex_run_pair len ex_run_zone0(1,2) g sg rgb by blast
qed

subsection \<open>Reading order\<close>

lemma np_lexsort_keys:
  assumes "p = np_lexsort (map fst cs) (map snd cs)"
  shows "map (\<lambda>i. (map snd cs ! i, map fst cs ! i)) p = map (\<lambda>(x, y). (y, x)) (map (\<lambda>i. cs ! i) p)"
proof -
  have "\<forall>i \<in> set p. i < length cs" using assms by (simp add: np_lexsort_set)
  then show ?thesis by (auto simp: case_prod_beta)
qed

lemma np_lexsort_stable_centers:
  assumes "p = np_lexsort (map fst cs) (map snd cs)"
  shows "filter (\<lambda>i. (snd (cs ! i), fst (cs ! i)) = k) p
       = filter (\<lambda>i. (snd (cs ! i), fst (cs ! i)) = k) [0..<length cs]"
proof -
  have "filter (\<lambda>i. (snd (cs ! i), fst (cs ! i)) = k) p
      = filter (\<lambda>i. (map snd cs ! i, map fst cs ! i) = k) p"
    using assms by (intro filter_cong) (auto simp: np_lexsort_set)
  also have "\<dots> = filter (\<lambda>i. (map snd cs ! i, map fst cs ! i) = k) [0..<length (map snd cs)]"
    unfolding assms by (rule np_lexsort_stable)
  also have "\<dots> = filter (\<lambda>i. (snd (cs ! i), fst (cs ! i)) = k) [0..<length cs]"
    by (intro filter_cong) auto
  finally show ?thesis .
qed

lemma sorted_shifted:
  fixes cs :: "(int \<times> int) list"
  assumes "sorted (map (\<lambda>(x, y). (y, x)) cs)"
  shows "sorted (map (\<lambda>(x, y). (y, x)) (map (\<lambda>c. (fst c + dx, snd c - dy)) cs))"
proof -
  have "sorted_wrt (\<lambda>a b. (case a of (x, y) \<Rightarrow> (y, x)) \<le> (case b of (x, y) \<Rightarrow> (y, x))) cs"
    using assms by (simp add: sorted_map)
  then have "sorted_wrt (\<lambda>a b. (snd a - dy, fst a + dx) \<le> (snd b - dy, fst b + dx)) cs"
    by (rule sorted_wrt_mono_rel [rotated]) (auto simp: less_eq_prod_def case_prod_beta)
  then show ?thesis by (simp add: sorted_map comp_def case_prod_beta)
qed

lemma reindex_shifted:
  assumes "\<forall>i \<in> set p. i < length cs"
  shows "map (\<lambda>i. map f cs ! i) p = map f (map (\<lambda>i. cs ! i) p)"
  using assms by simp

text \<open>
  C8. In a run of \<open>analyzeContours\<close> that emits its table, the zones are reordered by
  the permutation \<open>p\<close> that \<open>np.lexsort\<close> returns for the centres: \<open>p\<close> is a
  permutation of the zone positions, the reordered centres ascend in \<open>(y, x)\<close>, zones
  with the same centre keep their order, and \<open>centers\<close>, \<open>closeIndsPlus\<close> and, when
  present, \<open>refinedMasks\<close> and \<open>refinedCenters\<close> are all reindexed by \<open>p\<close>; refined
  centres that are the contour centres displaced by one vector ascend in \<open>(y, x)\<close> too. Row
  \<open>j\<close> of the table carries the label \<open>j + 1\<close> and the sample of the zone at position
  \<open>j\<close> of the reordered arrays. Centres \<open>(50,10), (10,10), (30,5)\<close> are taken in the
  order \<open>(30,5), (10,10), (50,10)\<close>.
\<close>

theorem zones_in_reading_order:
  assumes "analyzeContours fill st = Inr (st', c)"
    and "p = np_lexsort (map fst (centers st)) (map snd (centers st))"
  shows "mset p = mset [0..<length (centers st)]
       \<and> sorted (map (\<lambda>(x, y). (y, x)) (centers st'))
       \<and> (\<forall>k. filter (\<lambda>i. (snd (centers st ! i), fst (centers st ! i)) = k) p
              = filter (\<lambda>i. (snd (centers st ! i), fst (centers st ! i)) = k)
                  [0..<length (centers st)])
       \<and> centers st' = map (\<lambda>i. centers st ! i) p
       \<and> closeIndsPlus st' = map (\<lambda>i. closeIndsPlus st ! i) p
       \<and> (refinedMasks st \<noteq> [] \<longrightarrow>
            refinedMasks st' = map (\<lambda>i. refinedMasks st ! i) p
            \<and> refinedCenters st' = map (\<lambda>i. refinedCenters st ! i) p)
       \<and> (refinedMasks st \<noteq> []
            \<and> refinedCenters st = map (\<lambda>c. (fst c + dx, snd c - dy)) (centers st) \<longrightarrow>
            sorted (map (\<lambda>(x, y). (y, x)) (refinedCenters st')))
       \<and> length (rows c) = length p
       \<and> (\<forall>j<length p.
            rows c ! j ! 0 = Id (j + 1)
            \<and> (\<exists>contMask x y w h.
                 zone_window fill st' j = Inr (contMask, x, y, w, h)
                 \<and> avcolorsRGB st' ! j = avRGB (sample_window st' contMask x y w h)
                 \<and> stdsRGB st' ! j = stdRGB (sample_window st' contMask x y w h)
                 \<and> maskAreas st' ! j = maskArea (sample_window st' contMask x y w h)))
       \<and> np_lexsort [50, 10, 30] [10, 10, 5] = [2, 1, 0]"
proof -
  note res = analyzeContours_result [OF assms(1), folded assms(2)]
  have perm: "mset p = mset [0..<length (centers st)]"
    unfolding assms(2) using np_lexsort_mset [of "map fst (centers st)" "map snd (centers st)"]
    by simp
  have "sorted (map (\<lambda>i. (map snd (centers st) ! i, map fst (centers st) ! i)) p)"
    unfolding assms(2) by (rule np_lexsort_sorted)
  then have srt: "sorted (map (\<lambda>(x, y). (y, x)) (centers st'))"
    using np_lexsort_keys [OF assms(2)] res(2) by simp
  have stab: "\<forall>k. filter (\<lambda>i. (snd (centers st ! i), fst (centers st ! i)) = k) p
              = filter (\<lambda>i. (snd (centers st ! i), fst (centers st ! i)) = k)
                  [0..<length (centers st)]"
    using np_lexsort_stable_centers [OF assms(2)] by blast
  have zones: "\<forall>j<length p.
            rows c ! j ! 0 = Id (j + 1)
            \<and> (\<exists>contMask x y w h.
                 zone_window fill st' j = Inr (contMask, x, y, w, h)
                 \<and> avcolorsRGB st' ! j = avRGB (sample_window st' contMask x y w h)
                 \<and> stdsRGB st' ! j = stdRGB (sample_window st' contMask x y w h)
                 \<and> maskAreas st' ! j = maskArea (sample_window st' contMask x y w h))"
    using res(6,7) by blast
  have ref: "refinedMasks st \<noteq> []
            \<and> refinedCenters st = map (\<lambda>c. (fst c + dx, snd c - dy)) (centers st) \<longrightarrow>
            sorted (map (\<lambda>(x, y). (y, x)) (refinedCenters st'))"
  proof
    assume a: "refinedMasks st \<noteq> []
            \<and> refinedCenters st = map (\<lambda>c. (fst c + dx, snd c - dy)) (centers st)"
    have inb: "\<forall>i \<in> set p. i < length (centers st)"
      unfolding assms(2) by (simp add: np_lexsort_set)
    have "refinedCenters st' = map (\<lambda>i. refinedCenters st ! i) p" using res(4) a by simp
    also have "\<dots> = map (\<lambda>c. (fst c + dx, snd c - dy)) (map (\<lambda>i. centers st ! i) p)"
      using a reindex_shifted [OF inb] by simp
    also have "\<dots> = map (\<lambda>c. (fst c + dx, snd c - dy)) (centers st')"
      using res(2) by simp
    finally show "sorted (map (\<lambda>(x, y). (y, x)) (refinedCenters st'))"
      using sorted_shifted [OF srt] by simp
  qed
  show ?thesis
    using perm srt stab res(1,2,3,4,5) ref zones lexsort_spec by blast
qed

lemma ex_refined_pair_fields:
  "closeIndsPlus ex_refined_pair = [0, 1]" "closeSizes ex_refined_pair = [6, 9]"
  "centers ex_refined_pair = [(11, 6), (6, 6)]" "contours ex_refined_pair = [c_rect, c_square]"
  "V_saveRGB ex_refined_pair"
  "refinedMasks ex_refined_pair
     = [ex_rectangle 2 2 (map (map (\<lambda>_. 0)) ex_im) (11, 6),
        ex_rectangle 2 2 (map (map (\<lambda>_. 0)) ex_im) (6, 6)]"
  "refinedCenters ex_refined_pair = [(11, 6), (6, 6)]" "refiner_data ex_refined_pair = [2, 2]"
  by (simp_all add: ex_refined_pair_def refineZones_def Let_def ex_added_fields)

lemma ex_refined_pair_ready: "analysis_ready ex_refined_pair"
  by (simp add: analysis_ready_def ex_refined_pair_fields py_index_def)

lemma ex_refined_pair_run_eq:
  "analyzeContours ex_fill ex_refined_pair = Inr (fst ex_refined_pair_run, snd ex_refined_pair_run)"
  using analyzeContours_total [OF ex_refined_pair_ready, of ex_fill]
  by (auto simp: ex_refined_pair_run_def)

theorem zones_in_reading_order_witness:
  "analyzeContours ex_fill ex_refined_pair = Inr (fst ex_refined_pair_run, snd ex_refined_pair_run)
   \<and> np_lexsort (map fst (centers ex_refined_pair)) (map snd (centers ex_refined_pair)) = [1, 0]
   \<and> centers ex_refined_pair = [(11, 6), (6, 6)]
   \<and> centers (fst ex_refined_pair_run) = [(6, 6), (11, 6)]
   \<and> closeIndsPlus (fst ex_refined_pair_run) = [1, 0]
   \<and> refinedCenters (fst ex_refined_pair_run) = [(6, 6), (11, 6)]
   \<and> refinedMasks (fst ex_refined_pair_run)
       = [ex_rectangle 2 2 (map (map (\<lambda>_. 0)) ex_im) (6, 6),
          ex_rectangle 2 2 (map (map (\<lambda>_. 0)) ex_im) (11, 6)]
   \<and> refinedCenters ex_refined_pair
       = map (\<lambda>c. (fst c + 0, snd c - 0)) (centers ex_refined_pair)
   \<and> sorted (map (\<lambda>(x, y). (y, x)) (refinedCenters (fst ex_refined_pair_run)))
   \<and> length (rows (snd ex_refined_pair_run)) = 2
   \<and> rows (snd ex_refined_pair_run) ! 0 ! 0 = Id 1
   \<and> rows (snd ex_refined_pair_run) ! 1 ! 0 = Id 2"
proof -
  have p: "[1, 0] = np_lexsort (map fst (centers ex_refined_pair)) (map snd (centers ex_refined_pair))"
    by (simp add: ex_refined_pair_fields lexsort_ex)
  note t = zones_in_reading_order [OF ex_refined_pair_run_eq p, of 0 0]
  have ne: "refinedMasks ex_refined_pair \<noteq> []" by (simp add: ex_refined_pair_fields)
  have sh: "refinedCenters ex_refined_pair
       = map (\<lambda>c. (fst c + 0, snd c - 0)) (centers ex_refined_pair)"
    by (simp add: ex_refined_pair_fields)
  have so: "sorted (map (\<lambda>(x, y). (y, x)) (refinedCenters (fst ex_refined_pair_run)))"
    using t ne sh by blast
  have c: "centers (fst ex_refined_pair_run) = [(6, 6), (11, 6)]"
    using t by (simp add: ex_refined_pair_fields)
  have ci: "closeIndsPlus (fst ex_refined_pair_run) = [1, 0]"
    using t by (simp add: ex_refined_pair_fields)
  have rc: "refinedCenters (fst ex_refined_pair_run) = [(6, 6), (11, 6)]"
    using t ne by (simp add: ex_refined_pair_fields)
  have rm: "refinedMasks (fst ex_refined_pair_run)
       = [ex_rectangle 2 2 (map (map (\<lambda>_. 0)) ex_im) (6, 6),
          ex_rectangle 2 2 (map (map (\<lambda>_. 0)) ex_im) (11, 6)]"
    using t ne by (simp add: ex_refined_pair_fields)
  have len: "length (rows (snd ex_refined_pair_run)) = 2" using t by simp
  have ids: "rows (snd ex_refined_pair_run) ! 0 ! 0 = Id 1
      \<and> rows (snd ex_refined_pair_run) ! 1 ! 0 = Id 2"
    using t by simp
  show ?thesis
    using ex_refined_pair_run_eq p [symmetric] ex_refined_pair_fields(3) c ci rc rm sh so len ids
    by blast
qed

subsection \<open>Empty zones\<close>






end
